theory Spec2Isabelle
  imports Main
begin

section \<open>Data model\<close>

text \<open>
  The rows of the relational store, one record per table that
  \<^verbatim>\<open>properties.service.ts\<close> reads or writes. Identifiers are strings, as the
  service's signatures have them (\<^verbatim>\<open>propertyId: string\<close>); timestamps are
  natural numbers. Field names carry a table prefix because several tables have an
  \<^verbatim>\<open>id\<close> and a \<^verbatim>\<open>propertyId\<close> column.
\<close>

type_synonym ident = string
type_synonym timestamp = nat

record property =
  p_id :: ident
  p_ownerId :: ident
  p_title :: string
  p_description :: string
  p_facilities :: string
  p_propertyType :: string
  p_transactionType :: string
  p_price :: int
  p_currency :: string
  p_size :: int
  p_rooms :: int
  p_address :: string
  p_status :: string
  p_documentUrl :: string
  p_verificationComments :: string
  p_isVerified :: bool
  p_createdAt :: timestamp
  p_updatedAt :: timestamp

record user =
  u_id :: ident
  u_email :: "string option"
  u_username :: string
  u_role :: string
  u_listingLimit :: "int option"
  u_isEmailVerified :: bool
  u_paypalCredentials :: string
  u_createdAt :: timestamp
  u_updatedAt :: timestamp

record propertyImage =
  img_id :: ident
  img_propertyId :: ident
  img_imageUrl :: string
  img_isPrimary :: bool

record propertyView =
  v_id :: ident
  v_propertyId :: ident
  v_viewedAt :: timestamp

record pricingHistoryRow =
  ph_id :: ident
  ph_propertyId :: ident
  ph_price :: int
  ph_currency :: string
  ph_effectiveDate :: timestamp

record wishlistEntry =
  wl_userId :: ident
  wl_propertyId :: ident

record conversation =
  c_id :: ident
  c_userId :: ident
  c_systemPromptId :: "ident option"
  c_isActive :: bool

record message =
  m_id :: ident
  m_conversationId :: ident
  m_sender :: string
  m_content :: string
  m_createdAt :: timestamp
  m_isVisible :: bool

record systemPrompt =
  sp_id :: ident
  sp_content :: string

text \<open>
  The handle that \<^verbatim>\<open>model.startChat\<close> of the generative-AI client returns: the
  model name, the role-tagged history it was seeded with and the output cap.
\<close>

record chatSession =
  cs_model :: string
  cs_history :: "(string \<times> string) list"
  cs_maxOutputTokens :: nat

text \<open>The argument of \<^verbatim>\<open>sendPriceChangeNotification\<close>.\<close>

record propertyDetails =
  pd_name :: string
  pd_address :: string
  pd_oldPrice :: int
  pd_newPrice :: int

section \<open>The world the service runs in\<close>

datatype verb = Select | Insert | Update | Delete

datatype table =
  Properties | Users | PropertyImages | PropertyViews | PricingHistory
  | Wishlist | Conversations | Messages | SystemPrompts

datatype event = Stmt verb table | SessionGet ident | SessionSet ident

text \<open>
  JavaScript errors. Every \<^verbatim>\<open>throw new Error(msg)\<close> of the service is
  \<open>Error msg\<close>; reading a field of \<^verbatim>\<open>undefined\<close> is a \<open>TypeError\<close>.
\<close>

datatype error = Error string | TypeError string

fun errorMessage :: "error \<Rightarrow> string" where
  "errorMessage (Error m) = m"
| "errorMessage (TypeError m) = m"

text \<open>
  The state: the nine tables (in row order), the process-wide registry
  \<^verbatim>\<open>activeChatSessions\<close>, and what the service cannot see but depends on:
  \<^item> \<open>dbFault\<close>: which statements the store rejects, and with what message;
  \<^item> \<open>mailFault\<close>: for which address the promise of
    \<^verbatim>\<open>sendPriceChangeNotification\<close> rejects;
  \<^item> \<open>idGen\<close>, \<open>idCount\<close>: the identifiers the store and \<^verbatim>\<open>uuidv4\<close> hand out;
  \<^item> \<open>clock\<close>: the value of \<^verbatim>\<open>new Date()\<close>.
  Three logs record the effects: \<open>trace\<close> (every statement sent to the store and every
  registry access, in order), \<open>outbox\<close> (every notification dispatched) and
  \<open>console\<close>.
\<close>

record world =
  properties :: "property list"
  users :: "user list"
  propertyImages :: "propertyImage list"
  propertyViews :: "propertyView list"
  pricingHistory :: "pricingHistoryRow list"
  wishlist :: "wishlistEntry list"
  conversations :: "conversation list"
  messages :: "message list"
  systemPrompts :: "systemPrompt list"
  activeChatSessions :: "ident \<rightharpoonup> chatSession"
  dbFault :: "verb \<times> table \<Rightarrow> string option"
  mailFault :: "string \<Rightarrow> string option"
  idGen :: "nat \<Rightarrow> ident"
  idCount :: nat
  clock :: timestamp
  trace :: "event list"
  outbox :: "(string \<times> propertyDetails) list"
  console :: "string list"

section \<open>Promises\<close>

text \<open>
  An asynchronous computation takes the world and returns the value it resolves to, or
  the error it rejects with, and the world it leaves.
\<close>

type_synonym 'a io = "world \<Rightarrow> (error + 'a) \<times> world"

definition ret :: "'a \<Rightarrow> 'a io" where
  "ret a w = (Inr a, w)"

definition throw :: "error \<Rightarrow> 'a io" where
  "throw e w = (Inl e, w)"

text \<open>\<^verbatim>\<open>const x = await m; rest\<close> is \<open>await m (\<lambda>x. rest)\<close>.\<close>

definition await :: "'a io \<Rightarrow> ('a \<Rightarrow> 'b io) \<Rightarrow> 'b io" where
  "await m f w = (case m w of (Inl e, w') \<Rightarrow> (Inl e, w') | (Inr a, w') \<Rightarrow> f a w')"

definition tryCatch :: "'a io \<Rightarrow> (error \<Rightarrow> 'a io) \<Rightarrow> 'a io" where
  "tryCatch m h w = (case m w of (Inl e, w') \<Rightarrow> h e w' | (Inr a, w') \<Rightarrow> (Inr a, w'))"

text \<open>
  \<^verbatim>\<open>Promise.all\<close>: every member is started, whether or not another one rejects; the
  result rejects if any member does. The members are recorded in the order in which they
  are written, and of several rejections the first in that order is reported.
\<close>

definition promiseBoth :: "'a io \<Rightarrow> 'b io \<Rightarrow> ('a \<times> 'b) io" where
  "promiseBoth m1 m2 w =
     (case m1 w of (r1, w1) \<Rightarrow>
       (case m2 w1 of (r2, w2) \<Rightarrow>
         ((case r1 of Inl e \<Rightarrow> Inl e
           | Inr a \<Rightarrow> (case r2 of Inl e \<Rightarrow> Inl e | Inr b \<Rightarrow> Inr (a, b))), w2)))"

primrec promiseAll :: "'a io list \<Rightarrow> 'a list io" where
  "promiseAll [] = ret []"
| "promiseAll (m # ms) = await (promiseBoth m (promiseAll ms)) (\<lambda>(a, as). ret (a # as))"

section \<open>The store\<close>

text \<open>
  One statement sent to the store: it is recorded in the trace, then either rejected by
  the store (the promise rejects with the store's message and no table changes) or run
  on the tables. A query returns its rows in table order.
\<close>

definition run :: "verb \<Rightarrow> table \<Rightarrow> (world \<Rightarrow> 'a \<times> world) \<Rightarrow> 'a io" where
  "run v t f w =
     (let w1 = w\<lparr>trace := trace w @ [Stmt v t]\<rparr>
      in case dbFault w (v, t) of
           Some m \<Rightarrow> (Inl (Error m), w1)
         | None \<Rightarrow> (case f w1 of (a, w2) \<Rightarrow> (Inr a, w2)))"

definition select :: "table \<Rightarrow> (world \<Rightarrow> 'a) \<Rightarrow> 'a io" where
  "select t f = run Select t (\<lambda>w. (f w, w))"

text \<open>\<^verbatim>\<open>console.log\<close> and \<^verbatim>\<open>console.warn\<close>.\<close>

definition consoleLog :: "string \<Rightarrow> unit io" where
  "consoleLog s w = (Inr (), w\<lparr>console := console w @ [s]\<rparr>)"

section \<open>deleteProperty\<close>

text \<open>
  The whole body stands in the \<^verbatim>\<open>try\<close>, the not-found \<^verbatim>\<open>throw\<close>
  included. The delete removes the rows of \<^verbatim>\<open>properties\<close>; what the store
  cascades to the child tables is outside the service and not modelled.
\<close>

definition deleteProperty :: "ident \<Rightarrow> unit io" where
  "deleteProperty propertyId =
     tryCatch
       (await (select Properties
                 (\<lambda>w. take 1 (filter (\<lambda>p. p_id p = propertyId) (properties w))))
          (\<lambda>existingProperty.
            if existingProperty = []
            then throw (Error (''Property with ID '' @ propertyId @ '' not found''))
            else await (run Delete Properties
                          (\<lambda>w. ((), w\<lparr>properties :=
                                        filter (\<lambda>p. p_id p \<noteq> propertyId) (properties w)\<rparr>)))
                   (\<lambda>_. consoleLog
                          (''Property with ID '' @ propertyId @ '' deleted successfully''))))
       (\<lambda>error. throw (Error (''Failed to delete property: '' @ errorMessage error)))"

section \<open>Reading: isPropertyWished, getProperties, getProperty\<close>

text \<open>
  The owner columns a listing query selects. The \<^verbatim>\<open>"active"\<close> branch of
  \<^verbatim>\<open>getProperties\<close> selects eight columns of \<^verbatim>\<open>users\<close>, every other query four;
  the four that only that branch selects are optional here.
\<close>

record ownerColumns =
  oc_id :: ident
  oc_email :: "string option"
  oc_username :: string
  oc_role :: string
  oc_isEmailVerified :: "bool option"
  oc_paypalCredentials :: "string option"
  oc_createdAt :: "timestamp option"
  oc_updatedAt :: "timestamp option"

text \<open>The \<^verbatim>\<open>owner\<close> object of a \<^verbatim>\<open>PropertyWithRelations\<close> as the two readers build it.\<close>

record ownerProjection =
  o_id :: string
  o_email :: string
  o_username :: string
  o_role :: string

text \<open>
  \<^verbatim>\<open>PropertyWithRelations\<close>: the spread \<^verbatim>\<open>...property\<close> is the field
  \<open>r_property\<close>.
\<close>

record propertyWithRelations =
  r_property :: property
  r_images :: "propertyImage list"
  r_views :: "propertyView list"
  r_pricingHistory :: "pricingHistoryRow list"
  r_owner :: ownerProjection
  r_isWished :: bool

text \<open>
  \<^verbatim>\<open>a.leftJoin(b, on)\<close>: every row of \<open>a\<close> with each row of \<open>b\<close> that matches it, or
  with \<^verbatim>\<open>null\<close> when none does.
\<close>

definition leftJoin :: "'a list \<Rightarrow> ('a \<Rightarrow> 'b list) \<Rightarrow> ('a \<times> 'b option) list" where
  "leftJoin xs matching =
     concat (map (\<lambda>x. case matching x of
                         [] \<Rightarrow> [(x, None)]
                       | y # ys \<Rightarrow> map (\<lambda>z. (x, Some z)) (y # ys)) xs)"

definition ownerOf :: "world \<Rightarrow> property \<Rightarrow> user list" where
  "ownerOf w p = filter (\<lambda>u. u_id u = p_ownerId p) (users w)"

definition wideOwner :: "user \<Rightarrow> ownerColumns" where
  "wideOwner u =
     \<lparr>oc_id = u_id u, oc_email = u_email u, oc_username = u_username u, oc_role = u_role u,
      oc_isEmailVerified = Some (u_isEmailVerified u),
      oc_paypalCredentials = Some (u_paypalCredentials u),
      oc_createdAt = Some (u_createdAt u), oc_updatedAt = Some (u_updatedAt u)\<rparr>"

definition narrowOwner :: "user \<Rightarrow> ownerColumns" where
  "narrowOwner u =
     \<lparr>oc_id = u_id u, oc_email = u_email u, oc_username = u_username u, oc_role = u_role u,
      oc_isEmailVerified = None, oc_paypalCredentials = None,
      oc_createdAt = None, oc_updatedAt = None\<rparr>"

text \<open>
  \<^verbatim>\<open>db.select({property, owner: {...}}).from(properties).leftJoin(users, ...).where(cond)\<close>
\<close>

definition selectListing ::
  "(user \<Rightarrow> ownerColumns) \<Rightarrow> (property \<Rightarrow> bool) \<Rightarrow> (property \<times> ownerColumns option) list io" where
  "selectListing cols cond =
     select Properties
       (\<lambda>w. map (\<lambda>(p, u). (p, map_option cols u))
               (filter (\<lambda>(p, u). cond p) (leftJoin (properties w) (ownerOf w))))"

definition projectOwner :: "ownerColumns option \<Rightarrow> ownerProjection" where
  "projectOwner owner =
     \<lparr>o_id = (case owner of None \<Rightarrow> [] | Some c \<Rightarrow> oc_id c),
      o_email = (case owner of None \<Rightarrow> []
                 | Some c \<Rightarrow> (case oc_email c of None \<Rightarrow> [] | Some e \<Rightarrow> e)),
      o_username = (case owner of None \<Rightarrow> [] | Some c \<Rightarrow> oc_username c),
      o_role = (case owner of None \<Rightarrow> [] | Some c \<Rightarrow> oc_role c)\<rparr>"

definition isPropertyWished :: "ident \<Rightarrow> ident option \<Rightarrow> bool io" where
  "isPropertyWished propertyId userId =
     (case userId of
        None \<Rightarrow> ret False
      | Some uid \<Rightarrow>
          if uid = [] then ret False
          else await (select Wishlist
                        (\<lambda>w. length (filter (\<lambda>e. wl_propertyId e = propertyId \<and> wl_userId e = uid)
                                        (wishlist w))))
                 (\<lambda>count. ret (0 < count)))"

text \<open>The \<^verbatim>\<open>switch (filterParam)\<close> of \<^verbatim>\<open>getProperties\<close>.\<close>

definition selectByFilter :: "string \<Rightarrow> (property \<times> ownerColumns option) list io" where
  "selectByFilter filterParam =
     (if filterParam = ''active'' then
        selectListing wideOwner (\<lambda>p. p_status p = ''active'' \<and> p_isVerified p = True)
      else if filterParam = ''sold_rented'' then
        selectListing narrowOwner
          (\<lambda>p. p_status p \<in> set [''sold'', ''rented''] \<and> p_isVerified p = True)
      else if filterParam = ''inactive'' then
        selectListing narrowOwner (\<lambda>p. p_status p = ''inactive'' \<and> p_isVerified p = True)
      else
        selectListing narrowOwner (\<lambda>p. True))"

text \<open>
  The rest of \<^verbatim>\<open>getProperties\<close>, from the test of \<^verbatim>\<open>propertiesList.length\<close>
  on: the three batched child queries and the wish checks under one
  \<^verbatim>\<open>Promise.all\<close>, and the assembly. \<^verbatim>\<open>wishedStatuses[index]\<close> pairs the
  rows with the wish flags by position.
\<close>

definition withRelations ::
  "ident option \<Rightarrow> (property \<times> ownerColumns option) list \<Rightarrow> propertyWithRelations list io" where
  "withRelations userId propertiesList =
     (if length propertiesList = 0 then ret []
      else
        let propertyIds = map (\<lambda>(property, owner). p_id property) propertiesList
        in await
             (promiseBoth
               (select PropertyImages
                  (\<lambda>w. filter (\<lambda>i. img_propertyId i \<in> set propertyIds) (propertyImages w)))
               (promiseBoth
                 (select PropertyViews
                    (\<lambda>w. filter (\<lambda>v. v_propertyId v \<in> set propertyIds) (propertyViews w)))
                 (promiseBoth
                   (select PricingHistory
                      (\<lambda>w. filter (\<lambda>h. ph_propertyId h \<in> set propertyIds) (pricingHistory w)))
                   (promiseAll
                      (map (\<lambda>propertyId. isPropertyWished propertyId userId) propertyIds)))))
             (\<lambda>(images, views, pricing, wishedStatuses).
               ret (map (\<lambda>((property, owner), wished).
                          \<lparr>r_property = property,
                           r_images = filter (\<lambda>img. img_propertyId img = p_id property) images,
                           r_views = filter (\<lambda>view. v_propertyId view = p_id property) views,
                           r_pricingHistory =
                             filter (\<lambda>h. ph_propertyId h = p_id property) pricing,
                           r_owner = projectOwner owner,
                           r_isWished = wished\<rparr>)
                      (zip propertiesList wishedStatuses))))"

text \<open>
  The parameter \<^verbatim>\<open>filterParam: string = "active"\<close>: \<open>None\<close> is the call that passes
  no filter (or \<^verbatim>\<open>undefined\<close>), for which the default value is taken.
\<close>

definition getProperties :: "string option \<Rightarrow> ident option \<Rightarrow> propertyWithRelations list io" where
  "getProperties filterArg userId =
     (let filterParam = (case filterArg of None \<Rightarrow> ''active'' | Some f \<Rightarrow> f)
      in await (selectByFilter filterParam) (withRelations userId))"

text \<open>
  One row of the five-table join of \<^verbatim>\<open>getProperty\<close>: the property, and the image, the
  view, the pricing row and the owner joined to it, each \<^verbatim>\<open>null\<close> when the left join
  found none.
\<close>

type_synonym joinedRow =
  "(((property \<times> propertyImage option) \<times> propertyView option) \<times> pricingHistoryRow option)
   \<times> ownerColumns option"

definition joinProperty :: "ident \<Rightarrow> world \<Rightarrow> joinedRow list" where
  "joinProperty propertyId w =
     map (\<lambda>(r, u). (r, map_option narrowOwner u))
       (leftJoin
         (leftJoin
           (leftJoin
             (leftJoin (filter (\<lambda>p. p_id p = propertyId) (properties w))
                (\<lambda>p. filter (\<lambda>i. img_propertyId i = p_id p) (propertyImages w)))
             (\<lambda>(p, i). filter (\<lambda>v. v_propertyId v = p_id p) (propertyViews w)))
           (\<lambda>((p, i), v). filter (\<lambda>h. ph_propertyId h = p_id p) (pricingHistory w)))
         (\<lambda>(((p, i), v), h). ownerOf w p))"

text \<open>
  The callback of \<^verbatim>\<open>property.reduce\<close>. The accumulator starts as the empty object
  \<^verbatim>\<open>{}\<close>, which is \<open>None\<close>; \<^verbatim>\<open>!acc.id\<close> holds of it and of an aggregate whose
  \<^verbatim>\<open>id\<close> is the empty string.
\<close>

definition foldRow ::
  "bool \<Rightarrow> propertyWithRelations option \<Rightarrow> joinedRow \<Rightarrow> propertyWithRelations option" where
  "foldRow isWished acc row =
     (case row of ((((property, imageRow), view), pricing), owner) \<Rightarrow>
       let fresh = \<lparr>r_property = property, r_images = [], r_views = [], r_pricingHistory = [],
                    r_owner = projectOwner owner, r_isWished = isWished\<rparr>;
           acc1 = (case acc of
                     None \<Rightarrow> fresh
                   | Some a \<Rightarrow> if p_id (r_property a) = [] then fresh else a);
           acc2 = (case imageRow of
                     None \<Rightarrow> acc1
                   | Some im \<Rightarrow>
                       if \<not> list_ex (\<lambda>img. img_id img = img_id im) (r_images acc1)
                       then acc1\<lparr>r_images := r_images acc1 @ [im]\<rparr> else acc1);
           acc3 = (case view of
                     None \<Rightarrow> acc2
                   | Some vw \<Rightarrow>
                       if \<not> list_ex (\<lambda>v. v_id v = v_id vw) (r_views acc2)
                       then acc2\<lparr>r_views := r_views acc2 @ [vw]\<rparr> else acc2);
           acc4 = (case pricing of
                     None \<Rightarrow> acc3
                   | Some pr \<Rightarrow>
                       if \<not> list_ex (\<lambda>p. ph_id p = ph_id pr) (r_pricingHistory acc3)
                       then acc3\<lparr>r_pricingHistory := r_pricingHistory acc3 @ [pr]\<rparr> else acc3)
       in Some acc4)"

text \<open>
  The result is the accumulator of the reduce; \<open>None\<close> (the empty object) would be the
  result on no rows, which the guard before it excludes.
\<close>

definition getProperty :: "ident \<Rightarrow> ident option \<Rightarrow> propertyWithRelations option io" where
  "getProperty propertyId userId =
     await (select Properties (joinProperty propertyId))
       (\<lambda>property.
         if length property = 0
         then throw (Error (''Property with ID '' @ propertyId @ '' not found''))
         else await (isPropertyWished propertyId userId)
                (\<lambda>isWished. ret (foldl (foldRow isWished) None property)))"

section \<open>Writing: addNewProperty\<close>

record imageInput =
  ii_imageUrl :: string
  ii_isPrimary :: bool

text \<open>
  \<^verbatim>\<open>CreatePropertyInput\<close>. The fields the function tests before use
  (\<^verbatim>\<open>input.currency || "USD"\<close>, \<^verbatim>\<open>input.status || "active"\<close>,
  \<^verbatim>\<open>input.images && ...\<close>) are optional.
\<close>

record createPropertyInput =
  ci_ownerId :: ident
  ci_title :: string
  ci_description :: string
  ci_facilities :: string
  ci_propertyType :: string
  ci_transactionType :: string
  ci_price :: int
  ci_currency :: "string option"
  ci_size :: int
  ci_rooms :: int
  ci_address :: string
  ci_status :: "string option"
  ci_documentUrl :: string
  ci_verificationComments :: string
  ci_images :: "imageInput list option"

record createdProperty =
  cp_property :: property
  cp_images :: "propertyImage list"
  cp_views :: "propertyView list"
  cp_pricingHistory :: "pricingHistoryRow list"

text \<open>\<^verbatim>\<open>s || d\<close> on an optional string: \<open>d\<close> when \<open>s\<close> is absent or empty.\<close>

definition orElse :: "string option \<Rightarrow> string \<Rightarrow> string" where
  "orElse s d = (case s of None \<Rightarrow> d | Some x \<Rightarrow> if x = [] then d else x)"

text \<open>
  \<^verbatim>\<open>db.insert(propertyImages).values(imgs.map(...)).returning()\<close>: one row per
  input image, in order, each with an identifier of the store.
\<close>

definition insertImages :: "ident \<Rightarrow> imageInput list \<Rightarrow> propertyImage list io" where
  "insertImages propertyId imgs =
     run Insert PropertyImages
       (\<lambda>w. let rows = map (\<lambda>(k, img). \<lparr>img_id = idGen w (idCount w + k),
                                          img_propertyId = propertyId,
                                          img_imageUrl = ii_imageUrl img,
                                          img_isPrimary = ii_isPrimary img\<rparr>)
                          (zip [0 ..< length imgs] imgs)
             in (rows, w\<lparr>propertyImages := propertyImages w @ rows,
                         idCount := idCount w + length imgs\<rparr>))"

definition insertPricing :: "ident \<Rightarrow> int \<Rightarrow> string \<Rightarrow> pricingHistoryRow list io" where
  "insertPricing propertyId price currency =
     run Insert PricingHistory
       (\<lambda>w. let row = \<lparr>ph_id = idGen w (idCount w), ph_propertyId = propertyId,
                         ph_price = price, ph_currency = currency,
                         ph_effectiveDate = clock w\<rparr>
             in ([row], w\<lparr>pricingHistory := pricingHistory w @ [row],
                          idCount := idCount w + 1\<rparr>))"

text \<open>
  Modelled from the spec: the column defaults of the schema of \<^verbatim>\<open>properties\<close>, which
  is not part of the service file. The store supplies the identifier and both
  timestamps, and a new listing is not verified.
\<close>

definition insertProperty :: "createPropertyInput \<Rightarrow> property io" where
  "insertProperty input =
     run Insert Properties
       (\<lambda>w. let row = \<lparr>p_id = idGen w (idCount w), p_ownerId = ci_ownerId input,
                         p_title = ci_title input, p_description = ci_description input,
                         p_facilities = ci_facilities input,
                         p_propertyType = ci_propertyType input,
                         p_transactionType = ci_transactionType input,
                         p_price = ci_price input,
                         p_currency = orElse (ci_currency input) ''USD'',
                         p_size = ci_size input, p_rooms = ci_rooms input,
                         p_address = ci_address input,
                         p_status = orElse (ci_status input) ''active'',
                         p_documentUrl = ci_documentUrl input,
                         p_verificationComments = ci_verificationComments input,
                         p_isVerified = False,
                         p_createdAt = clock w, p_updatedAt = clock w\<rparr>
             in (row, w\<lparr>properties := properties w @ [row], idCount := idCount w + 1\<rparr>))"

text \<open>\<^verbatim>\<open>(ownerData?.listingLimit || 1) - 1\<close>\<close>

definition decrementedLimit :: "(string \<times> int option) option \<Rightarrow> int" where
  "decrementedLimit ownerData =
     (case ownerData of
        None \<Rightarrow> 1
      | Some (role, limit) \<Rightarrow> (case limit of None \<Rightarrow> 1 | Some n \<Rightarrow> if n = 0 then 1 else n)) - 1"

definition addNewProperty :: "createPropertyInput \<Rightarrow> createdProperty io" where
  "addNewProperty input =
     await (select Users
              (\<lambda>w. take 1 (map (\<lambda>u. (u_role u, u_listingLimit u))
                              (filter (\<lambda>u. u_id u = ci_ownerId input) (users w)))))
       (\<lambda>user.
         case user of
           [] \<Rightarrow> throw (Error ''User not found'')
         | (role, listingLimit) # _ \<Rightarrow>
             if role = ''private_seller''
                \<and> (case listingLimit of None \<Rightarrow> False | Some n \<Rightarrow> n \<le> 0)
             then throw (Error ''Listings limit reached'')
             else
               await (insertProperty input)
                 (\<lambda>property.
                   await (select Users
                            (\<lambda>w. map (\<lambda>u. (u_role u, u_listingLimit u))
                                    (filter (\<lambda>u. u_id u = ci_ownerId input) (users w))))
                     (\<lambda>owner.
                       let ownerData = (case owner of [] \<Rightarrow> None | d # _ \<Rightarrow> Some d)
                       in await
                            (if role = ''private_seller''
                                \<and> (case listingLimit of None \<Rightarrow> 0 | Some n \<Rightarrow> n) \<noteq> 0
                             then run Update Users
                                    (\<lambda>w. ((), w\<lparr>users :=
                                       map (\<lambda>u. if u_id u = ci_ownerId input
                                                 then u\<lparr>u_listingLimit :=
                                                          Some (decrementedLimit ownerData)\<rparr>
                                                 else u) (users w)\<rparr>))
                             else ret ())
                            (\<lambda>_.
                              await
                                (case ci_images input of
                                   None \<Rightarrow> ret []
                                 | Some imgs \<Rightarrow>
                                     if 0 < length imgs then insertImages (p_id property) imgs
                                     else ret [])
                                (\<lambda>images.
                                  await (insertPricing (p_id property) (ci_price input)
                                           (orElse (ci_currency input) ''USD''))
                                    (\<lambda>pricingHistoryRecord.
                                      ret \<lparr>cp_property = property, cp_images = images,
                                           cp_views = [],
                                           cp_pricingHistory = pricingHistoryRecord\<rparr>))))))"

section \<open>Writing: updateProperty\<close>

text \<open>\<^verbatim>\<open>UpdatePropertyInput\<close>: every field may be absent (\<^verbatim>\<open>undefined\<close>).\<close>

record updatePropertyInput =
  ui_title :: "string option"
  ui_description :: "string option"
  ui_facilities :: "string option"
  ui_propertyType :: "string option"
  ui_transactionType :: "string option"
  ui_price :: "int option"
  ui_currency :: "string option"
  ui_size :: "int option"
  ui_rooms :: "int option"
  ui_address :: "string option"
  ui_status :: "string option"
  ui_documentUrl :: "string option"
  ui_verificationComments :: "string option"
  ui_isVerified :: "bool option"
  ui_images :: "imageInput list option"

text \<open>
  What \<^verbatim>\<open>updateProperty\<close> returns. \<open>up_property\<close> is the spread
  \<^verbatim>\<open>...updatedProperty[0]\<close> (\<open>None\<close> if the update returned no row); \<open>up_owner\<close>
  is the whole row of \<^verbatim>\<open>users\<close>, or \<^verbatim>\<open>null\<close>.
\<close>

record updatedProperty =
  up_property :: "property option"
  up_images :: "propertyImage list"
  up_views :: "propertyView list"
  up_pricingHistory :: "pricingHistoryRow list"
  up_owner :: "user option"
  up_isWished :: bool

text \<open>
  Modelled from the spec: \<^verbatim>\<open>sendPriceChangeNotification(email, details)\<close> of
  \<^verbatim>\<open>email.service\<close>, which is not part of the service file. The dispatch is
  recorded in the outbox; whether its promise rejects is the world's \<open>mailFault\<close>.
\<close>

definition sendPriceChangeNotification :: "string \<Rightarrow> propertyDetails \<Rightarrow> unit io" where
  "sendPriceChangeNotification email details w =
     (let w1 = w\<lparr>outbox := outbox w @ [(email, details)]\<rparr>
      in case mailFault w email of
           Some m \<Rightarrow> (Inl (Error m), w1)
         | None \<Rightarrow> (Inr (), w1))"

text \<open>
  The block under \<^verbatim>\<open>existingProperty[0].price !== input.price\<close>.
  \<^verbatim>\<open>inArray(users.id, userIds)\<close> is membership in \<open>userIds\<close> (no row, when the
  list is empty); \<open>notifyUser\<close>
  is the callback of \<^verbatim>\<open>allUsers.map\<close>, which sends to a user whose email is
  neither \<^verbatim>\<open>null\<close> nor empty.
\<close>

definition notifyUser :: "propertyDetails \<Rightarrow> ident \<times> string option \<Rightarrow> unit io" where
  "notifyUser propertyDetails user =
     (case snd user of
        None \<Rightarrow> ret ()
      | Some email \<Rightarrow>
          if email = [] then ret () else sendPriceChangeNotification email propertyDetails)"

definition notifyPriceChange :: "ident \<Rightarrow> property \<Rightarrow> int \<Rightarrow> unit io" where
  "notifyPriceChange propertyId existing newPrice =
     await (select Wishlist
              (\<lambda>w. map wl_userId (filter (\<lambda>e. wl_propertyId e = propertyId) (wishlist w))))
       (\<lambda>userIds.
         await (select Users
                  (\<lambda>w. map (\<lambda>u. (u_id u, u_email u))
                          (filter (\<lambda>u. u_id u \<in> set userIds) (users w))))
           (\<lambda>allUsers.
             if 0 < length allUsers then
               let propertyDetails =
                     \<lparr>pd_name = p_title existing,
                      pd_address = (if p_address existing = [] then ''N/A''
                                    else p_address existing),
                      pd_oldPrice = p_price existing,
                      pd_newPrice = newPrice\<rparr>
               in await (promiseAll (map (notifyUser propertyDetails) allUsers)) (\<lambda>_. ret ())
             else ret ()))"

text \<open>
  \<^verbatim>\<open>updateData\<close>: each field that the input supplies, and \<^verbatim>\<open>updatedAt\<close>.
\<close>

definition applyUpdate :: "updatePropertyInput \<Rightarrow> timestamp \<Rightarrow> property \<Rightarrow> property" where
  "applyUpdate input now p =
     p\<lparr>p_title := (case ui_title input of None \<Rightarrow> p_title p | Some x \<Rightarrow> x),
       p_description := (case ui_description input of None \<Rightarrow> p_description p | Some x \<Rightarrow> x),
       p_facilities := (case ui_facilities input of None \<Rightarrow> p_facilities p | Some x \<Rightarrow> x),
       p_propertyType :=
         (case ui_propertyType input of None \<Rightarrow> p_propertyType p | Some x \<Rightarrow> x),
       p_transactionType :=
         (case ui_transactionType input of None \<Rightarrow> p_transactionType p | Some x \<Rightarrow> x),
       p_price := (case ui_price input of None \<Rightarrow> p_price p | Some x \<Rightarrow> x),
       p_currency := (case ui_currency input of None \<Rightarrow> p_currency p | Some x \<Rightarrow> x),
       p_size := (case ui_size input of None \<Rightarrow> p_size p | Some x \<Rightarrow> x),
       p_rooms := (case ui_rooms input of None \<Rightarrow> p_rooms p | Some x \<Rightarrow> x),
       p_address := (case ui_address input of None \<Rightarrow> p_address p | Some x \<Rightarrow> x),
       p_status := (case ui_status input of None \<Rightarrow> p_status p | Some x \<Rightarrow> x),
       p_documentUrl := (case ui_documentUrl input of None \<Rightarrow> p_documentUrl p | Some x \<Rightarrow> x),
       p_verificationComments :=
         (case ui_verificationComments input of
            None \<Rightarrow> p_verificationComments p | Some x \<Rightarrow> x),
       p_isVerified := (case ui_isVerified input of None \<Rightarrow> p_isVerified p | Some x \<Rightarrow> x),
       p_updatedAt := now\<rparr>"

definition updateRow :: "ident \<Rightarrow> updatePropertyInput \<Rightarrow> property list io" where
  "updateRow propertyId input =
     run Update Properties
       (\<lambda>w. let rows = map (\<lambda>p. if p_id p = propertyId then applyUpdate input (clock w) p
                                   else p) (properties w)
             in (filter (\<lambda>p. p_id p = propertyId) rows, w\<lparr>properties := rows\<rparr>))"

definition selectImagesOf :: "ident \<Rightarrow> propertyImage list io" where
  "selectImagesOf propertyId =
     select PropertyImages (\<lambda>w. filter (\<lambda>i. img_propertyId i = propertyId) (propertyImages w))"

definition deleteImagesOf :: "ident \<Rightarrow> unit io" where
  "deleteImagesOf propertyId =
     run Delete PropertyImages
       (\<lambda>w. ((), w\<lparr>propertyImages :=
                     filter (\<lambda>i. img_propertyId i \<noteq> propertyId) (propertyImages w)\<rparr>))"

definition selectViewsOf :: "ident \<Rightarrow> propertyView list io" where
  "selectViewsOf propertyId =
     select PropertyViews (\<lambda>w. filter (\<lambda>v. v_propertyId v = propertyId) (propertyViews w))"

definition selectPricingOf :: "ident \<Rightarrow> pricingHistoryRow list io" where
  "selectPricingOf propertyId =
     select PricingHistory (\<lambda>w. filter (\<lambda>h. ph_propertyId h = propertyId) (pricingHistory w))"

text \<open>
  The block under \<^verbatim>\<open>input.images !== undefined\<close>; its value is the variable
  \<^verbatim>\<open>images\<close> after it.
\<close>

definition replaceImages :: "ident \<Rightarrow> imageInput list \<Rightarrow> propertyImage list io" where
  "replaceImages propertyId inputImages =
     await (selectImagesOf propertyId)
       (\<lambda>existingImages.
         let newImages =
               filter (\<lambda>img. \<not> list_ex (\<lambda>existingImg. img_imageUrl existingImg = ii_imageUrl img
                                                   \<and> img_isPrimary existingImg = ii_isPrimary img)
                               existingImages) inputImages
         in await
              (if 0 < length newImages
               then await (deleteImagesOf propertyId) (\<lambda>_. insertImages propertyId newImages)
               else ret existingImages)
              (\<lambda>images.
                await (deleteImagesOf propertyId)
                  (\<lambda>_. if 0 < length inputImages then insertImages propertyId inputImages
                        else ret images)))"

text \<open>
  The block under \<^verbatim>\<open>input.price !== undefined || input.currency !== undefined\<close>.
  \<^verbatim>\<open>input.price || existing.price\<close> takes the stored price when the supplied one is
  \<^verbatim>\<open>0\<close>; \<^verbatim>\<open>input.currency || existing.currency || "USD"\<close> passes over empty
  strings.
\<close>

definition appendPricingHistory ::
  "ident \<Rightarrow> updatePropertyInput \<Rightarrow> property \<Rightarrow> pricingHistoryRow list io" where
  "appendPricingHistory propertyId input existing =
     (if ui_price input \<noteq> None \<or> ui_currency input \<noteq> None then
        let newPrice = (case ui_price input of
                          None \<Rightarrow> p_price existing
                        | Some x \<Rightarrow> if x = 0 then p_price existing else x);
            newCurrency = orElse (ui_currency input) (orElse (Some (p_currency existing)) ''USD'')
        in insertPricing propertyId newPrice newCurrency
      else ret [])"

text \<open>The test of \<^verbatim>\<open>input.price\<close> that guards the notification block.\<close>

definition notifyIfPriceChanged :: "ident \<Rightarrow> updatePropertyInput \<Rightarrow> property \<Rightarrow> unit io" where
  "notifyIfPriceChanged propertyId input existing =
     (case ui_price input of
        None \<Rightarrow> ret ()
      | Some price \<Rightarrow>
          if p_price existing \<noteq> price then notifyPriceChange propertyId existing price
          else ret ())"

text \<open>
  The end of \<^verbatim>\<open>updateProperty\<close>: the four reads under \<^verbatim>\<open>Promise.all\<close> and the
  object returned, whose \<^verbatim>\<open>pricingHistory\<close> is read once more when no pricing row
  was inserted.
\<close>

definition fetchUpdated ::
  "ident \<Rightarrow> updatePropertyInput \<Rightarrow> property \<Rightarrow> property list \<Rightarrow> propertyImage list
   \<Rightarrow> pricingHistoryRow list \<Rightarrow> updatedProperty io" where
  "fetchUpdated propertyId input existing updatedProperty images pricingHistoryRecord =
     await
       (promiseBoth
         (if ui_images input \<noteq> None then ret images else selectImagesOf propertyId)
         (promiseBoth (selectViewsOf propertyId)
           (promiseBoth (selectPricingOf propertyId)
             (select Users
                (\<lambda>w. case filter (\<lambda>u. u_id u = p_ownerId existing) (users w) of
                        [] \<Rightarrow> None
                      | u # _ \<Rightarrow> Some u)))))
       (\<lambda>(fetchedImages, views, pricing, owner).
         await (if 0 < length pricingHistoryRecord then ret pricing
                else selectPricingOf propertyId)
           (\<lambda>history.
             ret \<lparr>up_property = (case updatedProperty of [] \<Rightarrow> None | p # _ \<Rightarrow> Some p),
                  up_images = fetchedImages,
                  up_views = views,
                  up_pricingHistory = history,
                  up_owner = owner,
                  up_isWished = False\<rparr>))"

text \<open>
  The writes of \<^verbatim>\<open>updateProperty\<close>, in the order of the source: the update of the
  row, the image block, the pricing-history block, and then the reads for the return
  value.
\<close>

definition persistUpdate :: "ident \<Rightarrow> updatePropertyInput \<Rightarrow> property \<Rightarrow> updatedProperty io" where
  "persistUpdate propertyId input existing =
     await (updateRow propertyId input)
       (\<lambda>updatedProperty.
         await (case ui_images input of
                  None \<Rightarrow> ret []
                | Some inputImages \<Rightarrow> replaceImages propertyId inputImages)
           (\<lambda>images.
             await (appendPricingHistory propertyId input existing)
               (\<lambda>pricingHistoryRecord.
                 fetchUpdated propertyId input existing updatedProperty images
                   pricingHistoryRecord)))"

definition updateProperty :: "ident \<Rightarrow> updatePropertyInput \<Rightarrow> updatedProperty io" where
  "updateProperty propertyId input =
     await (select Properties
              (\<lambda>w. take 1 (filter (\<lambda>p. p_id p = propertyId) (properties w))))
       (\<lambda>existingProperty.
         case existingProperty of
           [] \<Rightarrow> throw (Error (''Property with ID '' @ propertyId @ '' not found''))
         | existing # _ \<Rightarrow>
             await (notifyIfPriceChanged propertyId input existing)
               (\<lambda>_. persistUpdate propertyId input existing))"

section \<open>verifyProperty\<close>

text \<open>
  Template literals print numbers in decimal. A \<^verbatim>\<open>Date\<close> is printed here as the
  decimal digits of its timestamp.
\<close>

fun showNat :: "nat \<Rightarrow> string" where
  "showNat n =
     (if n < 10 then [char_of (48 + n)] else showNat (n div 10) @ [char_of (48 + n mod 10)])"

declare showNat.simps [simp del]

definition showInt :: "int \<Rightarrow> string" where
  "showInt i = (if i < 0 then ''-'' @ showNat (nat (- i)) else showNat (nat i))"

definition newline :: string where
  "newline = [CHR 0x0A]"

text \<open>\<^verbatim>\<open>xs.join(", ")\<close>\<close>

fun joinComma :: "string list \<Rightarrow> string" where
  "joinComma [] = []"
| "joinComma [x] = x"
| "joinComma (x # y # ys) = x @ '', '' @ joinComma (y # ys)"

definition orUnknown :: "string \<Rightarrow> string" where
  "orUnknown s = (if s = [] then ''Unknown'' else s)"

definition summaryLine :: "string \<Rightarrow> string \<Rightarrow> string" where
  "summaryLine label v = ''      - '' @ label @ '': '' @ v @ newline"

text \<open>The template literal \<^verbatim>\<open>newPropertySummary\<close>, for a row that exists.\<close>

definition newPropertySummary ::
  "property \<Rightarrow> propertyImage list \<Rightarrow> pricingHistoryRow list \<Rightarrow> string" where
  "newPropertySummary p images pricingHistoryRecords =
     newline
     @ summaryLine ''ID'' (p_id p)
     @ summaryLine ''Title'' (orUnknown (p_title p))
     @ summaryLine ''Type'' (orUnknown (p_propertyType p))
     @ summaryLine ''Description'' (orUnknown (p_description p))
     @ summaryLine ''Transaction'' (orUnknown (p_transactionType p))
     @ summaryLine ''Price''
         (if p_price p \<noteq> 0 then showInt (p_price p) @ '' '' @ p_currency p else ''Unknown'')
     @ summaryLine ''Size''
         (if p_size p \<noteq> 0 then showInt (p_size p) @ '' sqm'' else ''Unknown'')
     @ summaryLine ''Rooms'' (if p_rooms p \<noteq> 0 then showInt (p_rooms p) else ''Unknown'')
     @ summaryLine ''Address'' (orUnknown (p_address p))
     @ summaryLine ''Status'' (orUnknown (p_status p))
     @ summaryLine ''Is Verified'' (if p_isVerified p then ''Yes'' else ''No'')
     @ summaryLine ''Images'' (showNat (length images) @ '' images'')
     @ summaryLine ''Facilities'' (orUnknown (p_facilities p))
     @ summaryLine ''Pricing History''
         (if 0 < length pricingHistoryRecords
          then joinComma
                 (map (\<lambda>ph. showInt (ph_price ph) @ '' '' @ ph_currency ph @ '' on ''
                             @ showNat (ph_effectiveDate ph)) pricingHistoryRecords)
          else ''None'')
     @ ''  ''"

text \<open>
  The block under \<^verbatim>\<open>const chat = activeChatSessions.get(conversation.id)\<close>, which the
  function has twice: when a session is registered for the conversation, it is replaced
  by one started from the conversation's messages in order of creation.
\<close>

definition rebuildChat :: "ident \<Rightarrow> unit io" where
  "rebuildChat conversationId w0 =
     (let w = w0\<lparr>trace := trace w0 @ [SessionGet conversationId]\<rparr>
      in case activeChatSessions w conversationId of
           None \<Rightarrow> (Inr (), w)
         | Some chat \<Rightarrow>
             await (select Messages
                      (\<lambda>w. map (\<lambda>m. (m_sender m, m_content m))
                              (sort_key m_createdAt
                                 (filter (\<lambda>m. m_conversationId m = conversationId) (messages w)))))
               (\<lambda>messageHistory w.
                 let history = map (\<lambda>(sender, content).
                                      (if sender = ''ai'' then ''model'' else ''user'', content))
                                 messageHistory;
                     updatedChat = \<lparr>cs_model = ''gemini-2.0-flash'', cs_history = history,
                                    cs_maxOutputTokens = 8192\<rparr>
                 in (Inr (), w\<lparr>activeChatSessions :=
                                 (activeChatSessions w)(conversationId \<mapsto> updatedChat),
                               trace := trace w @ [SessionSet conversationId]\<rparr>)) w)"

text \<open>The body of the loop over the active conversations.\<close>

definition syncConversation :: "string \<Rightarrow> conversation \<Rightarrow> unit io" where
  "syncConversation summary conv =
     (if (case c_systemPromptId conv of None \<Rightarrow> True | Some s \<Rightarrow> s = []) then
        consoleLog (''Conversation '' @ c_id conv @ '' has no systemPromptId, skipping.'')
      else
        await (select Messages
                 (\<lambda>w. take 1 (filter (\<lambda>m. m_conversationId m = c_id conv
                                           \<and> m_sender m = ''system'' \<and> m_isVisible m = False)
                                 (messages w))))
          (\<lambda>found.
            case found of
              systemMessage # _ \<Rightarrow>
                let updatedContent = m_content systemMessage @ newline @ newline
                                     @ ''### New Property Added:'' @ newline @ summary
                in await (run Update Messages
                            (\<lambda>w. ((), w\<lparr>messages :=
                                          map (\<lambda>m. if m_id m = m_id systemMessage
                                                    then m\<lparr>m_content := updatedContent\<rparr> else m)
                                            (messages w)\<rparr>)))
                     (\<lambda>_. rebuildChat (c_id conv))
            | [] \<Rightarrow>
                await (select SystemPrompts
                         (\<lambda>w. take 1 (filter (\<lambda>sp. Some (sp_id sp) = c_systemPromptId conv)
                                         (systemPrompts w))))
                  (\<lambda>prompts.
                    case prompts of
                      defaultPrompt # _ \<Rightarrow>
                        let newSystemMessageContent =
                              newline @ ''          '' @ sp_content defaultPrompt
                              @ newline @ ''          ### Available Properties:''
                              @ newline @ ''          '' @ summary
                              @ newline @ ''        ''
                        in await (run Insert Messages
                                    (\<lambda>w. ((), w\<lparr>messages := messages w @
                                                    [\<lparr>m_id = idGen w (idCount w),
                                                      m_conversationId = c_id conv,
                                                      m_sender = ''system'',
                                                      m_content = newSystemMessageContent,
                                                      m_createdAt = clock w,
                                                      m_isVisible = False\<rparr>],
                                                idCount := idCount w + 1\<rparr>)))
                             (\<lambda>_. rebuildChat (c_id conv))
                    | [] \<Rightarrow>
                        consoleLog (''No system prompt found for conversation '' @ c_id conv))))"

primrec syncConversations :: "string \<Rightarrow> conversation list \<Rightarrow> unit io" where
  "syncConversations summary [] = ret ()"
| "syncConversations summary (conv # rest) =
     await (syncConversation summary conv) (\<lambda>_. syncConversations summary rest)"

text \<open>
  \<^verbatim>\<open>result[0]\<close> is \<^verbatim>\<open>undefined\<close> when the update matched no row; the first
  read of one of its fields, \<^verbatim>\<open>property.id\<close> in the summary, then throws a
  \<^verbatim>\<open>TypeError\<close>.
\<close>

definition verifyProperty :: "ident \<Rightarrow> property io" where
  "verifyProperty propertyId =
     await (run Update Properties
              (\<lambda>w. let rows = map (\<lambda>p. if p_id p = propertyId then p\<lparr>p_isVerified := True\<rparr> else p)
                                 (properties w)
                    in (filter (\<lambda>p. p_id p = propertyId) rows, w\<lparr>properties := rows\<rparr>)))
       (\<lambda>result.
         await (promiseBoth (selectPricingOf propertyId) (selectImagesOf propertyId))
           (\<lambda>(pricingHistoryRecords, images).
             case result of
               [] \<Rightarrow> throw (TypeError ''Cannot read properties of undefined (reading 'id')'')
             | property # _ \<Rightarrow>
                 await (select Conversations
                          (\<lambda>w. filter (\<lambda>c. c_isActive c = True) (conversations w)))
                   (\<lambda>activeConversations.
                     await (syncConversations
                              (newPropertySummary property images pricingHistoryRecords)
                              activeConversations)
                       (\<lambda>_. ret property))))"

section \<open>Vocabulary of the statements\<close>

text \<open>
  The definitions of this section are not part of the service; the theorems below are
  stated with them.

  \<open>recipients\<close>: the addresses that \<open>notifyUser\<close> sends to, in order. \<open>firstFault\<close>: the
  rejection of the first address, in order, whose dispatch rejects. \<open>wishers\<close>: the
  \<^verbatim>\<open>allUsers\<close> of the notification block, the rows of \<^verbatim>\<open>users\<close> whose id is on
  the wishlist of the property. \<open>detailsOf\<close>: the \<^verbatim>\<open>propertyDetails\<close> sent with a
  new price.
\<close>

primrec recipients :: "(ident \<times> string option) list \<Rightarrow> string list" where
  "recipients [] = []"
| "recipients (u # us) =
     (case snd u of
        None \<Rightarrow> recipients us
      | Some e \<Rightarrow> if e = [] then recipients us else e # recipients us)"

primrec firstFault :: "(string \<Rightarrow> string option) \<Rightarrow> string list \<Rightarrow> string option" where
  "firstFault f [] = None"
| "firstFault f (e # es) = (case f e of Some m \<Rightarrow> Some m | None \<Rightarrow> firstFault f es)"

definition wishers :: "ident \<Rightarrow> world \<Rightarrow> (ident \<times> string option) list" where
  "wishers pid w =
     map (\<lambda>u. (u_id u, u_email u))
       (filter (\<lambda>u. u_id u \<in> set (map wl_userId
                                      (filter (\<lambda>e. wl_propertyId e = pid) (wishlist w))))
          (users w))"

definition detailsOf :: "property \<Rightarrow> int \<Rightarrow> propertyDetails" where
  "detailsOf ex np =
     \<lparr>pd_name = p_title ex,
      pd_address = (if p_address ex = [] then ''N/A'' else p_address ex),
      pd_oldPrice = p_price ex, pd_newPrice = np\<rparr>"

text \<open>
  For the two readers. \<open>wishedBy\<close>: whether the viewing user has the property on the
  wishlist, as \<open>isPropertyWished\<close> computes it. \<open>visible\<close>: the condition that each
  value of the filter puts on a property. \<open>ownerView\<close>: the four owner fields of the
  output, read from the joined user row, or empty strings when there is none.
  \<open>aggregate\<close>: the output object for one row of the listing query.
\<close>

definition wishedBy :: "ident option \<Rightarrow> world \<Rightarrow> ident \<Rightarrow> bool" where
  "wishedBy userId w pid =
     (case userId of
        None \<Rightarrow> False
      | Some uid \<Rightarrow>
          uid \<noteq> [] \<and>
          0 < length (filter (\<lambda>e. wl_propertyId e = pid \<and> wl_userId e = uid) (wishlist w)))"

definition visible :: "string \<Rightarrow> property \<Rightarrow> bool" where
  "visible f p =
     (if f = ''active'' then p_status p = ''active'' \<and> p_isVerified p
      else if f = ''sold_rented'' then
        (p_status p = ''sold'' \<or> p_status p = ''rented'') \<and> p_isVerified p
      else if f = ''inactive'' then p_status p = ''inactive'' \<and> p_isVerified p
      else True)"

fun ownerView :: "user option \<Rightarrow> ownerProjection" where
  "ownerView None = \<lparr>o_id = [], o_email = [], o_username = [], o_role = []\<rparr>"
| "ownerView (Some u) =
     \<lparr>o_id = u_id u, o_email = (case u_email u of None \<Rightarrow> [] | Some e \<Rightarrow> e),
      o_username = u_username u, o_role = u_role u\<rparr>"

definition aggregate ::
  "ident option \<Rightarrow> world \<Rightarrow> property \<times> user option \<Rightarrow> propertyWithRelations" where
  "aggregate userId w row =
     \<lparr>r_property = fst row,
      r_images = filter (\<lambda>i. img_propertyId i = p_id (fst row)) (propertyImages w),
      r_views = filter (\<lambda>v. v_propertyId v = p_id (fst row)) (propertyViews w),
      r_pricingHistory = filter (\<lambda>h. ph_propertyId h = p_id (fst row)) (pricingHistory w),
      r_owner = ownerView (snd row),
      r_isWished = wishedBy userId w (p_id (fst row))\<rparr>"

text \<open>
  For the fold of \<open>getProperty\<close>. \<open>addById\<close>: one \<^verbatim>\<open>if (x && !acc.some(...))
  acc.push(x)\<close>. \<open>oneRowPerId key xs S\<close>: the list \<open>xs\<close> holds rows of \<open>S\<close> only, no
  two with the same id, one for every id that occurs in \<open>S\<close>; so its length is the number
  of distinct ids in \<open>S\<close>. \<open>joined ms y\<close>: \<open>y\<close> is what a left join attaches to a row
  whose matches are \<open>ms\<close>. The four projections name the components of a joined row.
\<close>

definition addById :: "('a \<Rightarrow> ident) \<Rightarrow> 'a list \<Rightarrow> 'a option \<Rightarrow> 'a list" where
  "addById key acc x =
     (case x of
        None \<Rightarrow> acc
      | Some y \<Rightarrow> if \<not> list_ex (\<lambda>z. key z = key y) acc then acc @ [y] else acc)"

definition oneRowPerId :: "('a \<Rightarrow> ident) \<Rightarrow> 'a list \<Rightarrow> 'a set \<Rightarrow> bool" where
  "oneRowPerId key xs S \<longleftrightarrow>
     distinct (map key xs) \<and> set xs \<subseteq> S \<and> key ` set xs = key ` S
     \<and> length xs = card (key ` S)"

definition joined :: "'a list \<Rightarrow> 'a option \<Rightarrow> bool" where
  "joined ms y = (case y of None \<Rightarrow> ms = [] | Some z \<Rightarrow> z \<in> set ms)"

definition rowProperty :: "joinedRow \<Rightarrow> property" where
  "rowProperty row = fst (fst (fst (fst row)))"

definition rowImage :: "joinedRow \<Rightarrow> propertyImage option" where
  "rowImage row = snd (fst (fst (fst row)))"

definition rowView :: "joinedRow \<Rightarrow> propertyView option" where
  "rowView row = snd (fst (fst row))"

definition rowPricing :: "joinedRow \<Rightarrow> pricingHistoryRow option" where
  "rowPricing row = snd (fst row)"

section \<open>Example worlds\<close>

text \<open>
  Concrete stores and inputs on which the theorems are instantiated: a store that
  answers every statement, a listing with its owner and three users who wishlisted it,
  and variations of it.
\<close>

definition emptyWorld :: world where
  "emptyWorld =
     \<lparr>properties = [], users = [], propertyImages = [], propertyViews = [],
      pricingHistory = [], wishlist = [], conversations = [], messages = [],
      systemPrompts = [], activeChatSessions = (\<lambda>_. None),
      dbFault = (\<lambda>_. None), mailFault = (\<lambda>_. None),
      idGen = (\<lambda>n. ''row-'' @ showNat n), idCount = 0, clock = 7,
      trace = [], outbox = [], console = []\<rparr>"

definition flat :: property where
  "flat =
     \<lparr>p_id = ''p1'', p_ownerId = ''u1'', p_title = ''Flat'', p_description = ''Two rooms'',
      p_facilities = ''lift'', p_propertyType = ''apartment'', p_transactionType = ''sale'',
      p_price = 100, p_currency = ''EUR'', p_size = 50, p_rooms = 2,
      p_address = ''Main St 1'', p_status = ''active'', p_documentUrl = [],
      p_verificationComments = [], p_isVerified = False,
      p_createdAt = 1, p_updatedAt = 1\<rparr>"

definition member :: "ident \<Rightarrow> string \<Rightarrow> string \<Rightarrow> int option \<Rightarrow> user" where
  "member uid name role limit =
     \<lparr>u_id = uid, u_email = Some (name @ ''@example.com''), u_username = name, u_role = role,
      u_listingLimit = limit, u_isEmailVerified = True,
      u_paypalCredentials = ''secret-'' @ name, u_createdAt = 1, u_updatedAt = 1\<rparr>"

definition noChange :: updatePropertyInput where
  "noChange =
     \<lparr>ui_title = None, ui_description = None, ui_facilities = None, ui_propertyType = None,
      ui_transactionType = None, ui_price = None, ui_currency = None, ui_size = None,
      ui_rooms = None, ui_address = None, ui_status = None, ui_documentUrl = None,
      ui_verificationComments = None, ui_isVerified = None, ui_images = None\<rparr>"

definition marketWorld :: world where
  "marketWorld =
     emptyWorld\<lparr>properties := [flat],
                users := [member ''u1'' ''alice'' ''private_seller'' (Some 3),
                          member ''u2'' ''bob'' ''buyer'' None,
                          member ''u3'' ''carol'' ''buyer'' None,
                          member ''u4'' ''dave'' ''buyer'' None],
                wishlist := [\<lparr>wl_userId = ''u2'', wl_propertyId = ''p1''\<rparr>,
                             \<lparr>wl_userId = ''u3'', wl_propertyId = ''p1''\<rparr>,
                             \<lparr>wl_userId = ''u4'', wl_propertyId = ''p1''\<rparr>]\<rparr>"

text \<open>The same store, with a mail system that rejects the dispatch to one address.\<close>

definition carolBounces :: world where
  "carolBounces =
     marketWorld\<lparr>mailFault := (\<lambda>e. if e = ''carol@example.com'' then Some ''mailbox full''
                                    else None)\<rparr>"

definition photo :: "ident \<Rightarrow> ident \<Rightarrow> string \<Rightarrow> propertyImage" where
  "photo iid pid url =
     \<lparr>img_id = iid, img_propertyId = pid, img_imageUrl = url, img_isPrimary = True\<rparr>"

definition galleryWorld :: world where
  "galleryWorld =
     marketWorld\<lparr>propertyImages :=
                   [photo ''i1'' ''p1'' ''old.jpg'', photo ''i2'' ''p2'' ''barn.jpg'']\<rparr>"

definition newGallery :: "imageInput list" where
  "newGallery = [\<lparr>ii_imageUrl = ''old.jpg'', ii_isPrimary = True\<rparr>,
                 \<lparr>ii_imageUrl = ''new.jpg'', ii_isPrimary = False\<rparr>]"

text \<open>A store whose one listing has an empty currency.\<close>

definition unpricedWorld :: world where
  "unpricedWorld = emptyWorld\<lparr>properties := [flat\<lparr>p_currency := []\<rparr>]\<rparr>"

definition bungalow :: createPropertyInput where
  "bungalow =
     \<lparr>ci_ownerId = ''u1'', ci_title = ''Bungalow'', ci_description = ''By the sea'',
      ci_facilities = ''garden'', ci_propertyType = ''house'', ci_transactionType = ''rent'',
      ci_price = 900, ci_currency = None, ci_size = 80, ci_rooms = 3,
      ci_address = ''Shore Rd 5'', ci_status = None, ci_documentUrl = [],
      ci_verificationComments = [],
      ci_images = Some [\<lparr>ii_imageUrl = ''front.jpg'', ii_isPrimary = True\<rparr>]\<rparr>"

text \<open>A store whose one seller has used up the listing quota.\<close>

definition exhaustedWorld :: world where
  "exhaustedWorld = emptyWorld\<lparr>users := [member ''u1'' ''alice'' ''private_seller'' (Some 0)]\<rparr>"

text \<open>
  Three listings: one active and not verified, one active and verified, one sold and
  verified whose owner row is missing.
\<close>

definition villa :: property where
  "villa = flat\<lparr>p_id := ''p2'', p_title := ''Villa'', p_isVerified := True\<rparr>"

definition cabin :: property where
  "cabin = flat\<lparr>p_id := ''p3'', p_ownerId := ''u9'', p_title := ''Cabin'',
                p_status := ''sold'', p_isVerified := True\<rparr>"

definition listingWorld :: world where
  "listingWorld = marketWorld\<lparr>properties := [flat, villa, cabin]\<rparr>"

text \<open>Overwrites every column of a user row that the output must not show.\<close>

definition scrub :: "user \<Rightarrow> user" where
  "scrub u = u\<lparr>u_listingLimit := None, u_isEmailVerified := False, u_paypalCredentials := [],
              u_createdAt := 0, u_updatedAt := 0\<rparr>"

text \<open>
  A listing with two images, three views and two pricing rows: its join has twelve
  rows.
\<close>

definition fanoutWorld :: world where
  "fanoutWorld =
     galleryWorld\<lparr>propertyImages :=
                    [photo ''i1'' ''p1'' ''old.jpg'', photo ''i2'' ''p2'' ''barn.jpg'',
                     photo ''i3'' ''p1'' ''yard.jpg''],
                  propertyViews :=
                    [\<lparr>v_id = ''v1'', v_propertyId = ''p1'', v_viewedAt = 2\<rparr>,
                     \<lparr>v_id = ''v2'', v_propertyId = ''p1'', v_viewedAt = 3\<rparr>,
                     \<lparr>v_id = ''v3'', v_propertyId = ''p1'', v_viewedAt = 4\<rparr>],
                  pricingHistory :=
                    [\<lparr>ph_id = ''h1'', ph_propertyId = ''p1'', ph_price = 90,
                      ph_currency = ''EUR'', ph_effectiveDate = 1\<rparr>,
                     \<lparr>ph_id = ''h2'', ph_propertyId = ''p1'', ph_price = 100,
                      ph_currency = ''EUR'', ph_effectiveDate = 2\<rparr>]\<rparr>"

text \<open>The market store, on which the store rejects every delete of a property.\<close>

definition lockedWorld :: world where
  "lockedWorld =
     marketWorld\<lparr>dbFault := (\<lambda>s. if s = (Delete, Properties) then Some ''deadlock detected''
                                  else None)\<rparr>"

section \<open>Running a computation\<close>

lemmas world_defs =
  emptyWorld_def flat_def member_def noChange_def marketWorld_def carolBounces_def
  photo_def galleryWorld_def newGallery_def unpricedWorld_def bungalow_def exhaustedWorld_def
  lockedWorld_def

lemmas run_defs =
  ret_def throw_def await_def tryCatch_def promiseBoth_def run_def select_def consoleLog_def
  Let_def

lemmas update_defs =
  updateProperty_def notifyIfPriceChanged_def notifyPriceChange_def notifyUser_def
  sendPriceChangeNotification_def persistUpdate_def updateRow_def applyUpdate_def
  replaceImages_def selectImagesOf_def deleteImagesOf_def insertImages_def selectViewsOf_def
  selectPricingOf_def appendPricingHistory_def insertPricing_def orElse_def fetchUpdated_def

lemmas add_defs =
  addNewProperty_def insertProperty_def insertPricing_def insertImages_def
  decrementedLimit_def orElse_def

text \<open>What it means for a computation to resolve: each step before it did.\<close>

lemma ret_eq [simp]: "ret a w = (r, w') \<longleftrightarrow> r = Inr a \<and> w' = w"
  by (auto simp: ret_def)

lemma throw_eq [simp]: "throw e w = (r, w') \<longleftrightarrow> r = Inl e \<and> w' = w"
  by (auto simp: throw_def)

lemma await_Inr:
  "await m f w = (Inr r, w') \<longleftrightarrow> (\<exists>a w1. m w = (Inr a, w1) \<and> f a w1 = (Inr r, w'))"
  by (auto simp: await_def split: prod.splits sum.splits)

lemma run_Inr:
  "run v t f w = (Inr a, w') \<longleftrightarrow>
     dbFault w (v, t) = None \<and> f (w\<lparr>trace := trace w @ [Stmt v t]\<rparr>) = (a, w')"
  by (auto simp: run_def Let_def split: option.splits prod.splits)

lemma select_Inr:
  "select t f w = (Inr a, w') \<longleftrightarrow>
     dbFault w (Select, t) = None \<and> w' = w\<lparr>trace := trace w @ [Stmt Select t]\<rparr> \<and> a = f w'"
  by (auto simp: select_def run_Inr)

lemma promiseBoth_Inr:
  "promiseBoth m1 m2 w = (Inr ab, w') \<longleftrightarrow>
     (\<exists>w1. m1 w = (Inr (fst ab), w1) \<and> m2 w1 = (Inr (snd ab), w'))"
  by (cases ab) (auto simp: promiseBoth_def split: prod.splits sum.splits)

lemmas Inr_simps = await_Inr run_Inr select_Inr promiseBoth_Inr

lemma not_isl_fst: "\<not> isl (fst x) \<Longrightarrow> \<exists>r w'. x = (Inr r, w')"
  by (cases x; cases "fst x") auto

lemma filter_none: "\<forall>p\<in>set xs. \<not> P p \<Longrightarrow> filter P xs = []"
  by (induction xs) auto

lemma map_same: "\<forall>p\<in>set xs. \<not> P p \<Longrightarrow> map (\<lambda>p. if P p then f p else p) xs = xs"
  by (induction xs) auto

section \<open>deleteProperty, case by case\<close>

text \<open>
  The four ways a call of \<open>deleteProperty\<close> can go: the select is rejected, the id is
  missing, the delete is rejected, or the row is deleted.
\<close>

lemma deleteProperty_eq:
  "deleteProperty pid w =
     (case dbFault w (Select, Properties) of
        Some m \<Rightarrow>
          (Inl (Error (''Failed to delete property: '' @ m)),
           w\<lparr>trace := trace w @ [Stmt Select Properties]\<rparr>)
      | None \<Rightarrow>
          if filter (\<lambda>p. p_id p = pid) (properties w) = [] then
            (Inl (Error (''Failed to delete property: Property with ID '' @ pid @ '' not found'')),
             w\<lparr>trace := trace w @ [Stmt Select Properties]\<rparr>)
          else
            (case dbFault w (Delete, Properties) of
               Some m \<Rightarrow>
                 (Inl (Error (''Failed to delete property: '' @ m)),
                  w\<lparr>trace := trace w @ [Stmt Select Properties, Stmt Delete Properties]\<rparr>)
             | None \<Rightarrow>
                 (Inr (),
                  w\<lparr>properties := filter (\<lambda>p. p_id p \<noteq> pid) (properties w),
                    trace := trace w @ [Stmt Select Properties, Stmt Delete Properties],
                    console := console w
                      @ [''Property with ID '' @ pid @ '' deleted successfully'']\<rparr>)))"
  by (cases "filter (\<lambda>p. p_id p = pid) (properties w)")
     (simp_all add: deleteProperty_def run_defs split: option.splits)

section \<open>The steps of updateProperty\<close>

subsection \<open>Notifications\<close>

lemma notifyUser_eq:
  "notifyUser d u w =
     ((case firstFault (mailFault w) (recipients [u]) of
         Some m \<Rightarrow> Inl (Error m) | None \<Rightarrow> Inr ()),
      w\<lparr>outbox := outbox w @ map (\<lambda>e. (e, d)) (recipients [u])\<rparr>)"
  by (simp add: notifyUser_def sendPriceChangeNotification_def ret_def Let_def
      split: option.splits)

lemma recipients_Cons: "recipients (u # us) = recipients [u] @ recipients us"
  by (simp split: option.splits)

lemma firstFault_append:
  "firstFault f (xs @ ys) =
     (case firstFault f xs of Some m \<Rightarrow> Some m | None \<Rightarrow> firstFault f ys)"
  by (induction xs) (auto split: option.splits)

text \<open>
  Every dispatch of the \<^verbatim>\<open>Promise.all\<close> is made, whatever the others do, and the
  whole rejects with the first rejection.
\<close>

lemma promiseAll_notify:
  "promiseAll (map (notifyUser d) us) w =
     ((case firstFault (mailFault w) (recipients us) of
         Some m \<Rightarrow> Inl (Error m) | None \<Rightarrow> Inr (map (\<lambda>_. ()) us)),
      w\<lparr>outbox := outbox w @ map (\<lambda>e. (e, d)) (recipients us)\<rparr>)"
proof (induction us arbitrary: w)
  case Nil
  show ?case by (simp add: ret_def)
next
  case (Cons u us)
  have "promiseAll (map (notifyUser d) (u # us)) w =
        await (promiseBoth (notifyUser d u) (promiseAll (map (notifyUser d) us)))
          (\<lambda>(a, as). ret (a # as)) w"
    by simp
  also have "\<dots> =
     ((case firstFault (mailFault w) (recipients [u] @ recipients us) of
         Some m \<Rightarrow> Inl (Error m) | None \<Rightarrow> Inr (map (\<lambda>_. ()) (u # us))),
      w\<lparr>outbox := outbox w @ map (\<lambda>e. (e, d)) (recipients [u] @ recipients us)\<rparr>)"
    by (simp add: await_def promiseBoth_def notifyUser_eq Cons.IH ret_def firstFault_append
        split: option.splits)
  finally show ?case
    by (simp only: recipients_Cons [of u us])
qed

lemma notifyPriceChange_eq:
  assumes "dbFault w (Select, Wishlist) = None" and "dbFault w (Select, Users) = None"
  shows "notifyPriceChange pid ex np w =
     ((case firstFault (mailFault w) (recipients (wishers pid w)) of
         Some m \<Rightarrow> Inl (Error m) | None \<Rightarrow> Inr ()),
      w\<lparr>outbox := outbox w @ map (\<lambda>e. (e, detailsOf ex np)) (recipients (wishers pid w)),
        trace := trace w @ [Stmt Select Wishlist, Stmt Select Users]\<rparr>)"
  using assms
  by (auto simp add: notifyPriceChange_def select_def run_def await_def ret_def Let_def
      promiseAll_notify wishers_def detailsOf_def simp del: map_map split: option.splits)

lemma notifyPriceChange_frame:
  "notifyPriceChange pid ex np w = (r, w') \<Longrightarrow>
   w' = w\<lparr>outbox := outbox w', trace := trace w'\<rparr>"
  by (auto simp add: notifyPriceChange_def select_def run_def await_def ret_def Let_def
      promiseAll_notify simp del: map_map split: option.splits if_splits sum.splits)

lemma notifyIfPriceChanged_frame:
  "notifyIfPriceChanged pid input ex w = (r, w') \<Longrightarrow>
   w' = w\<lparr>outbox := outbox w', trace := trace w'\<rparr>"
  by (auto simp: notifyIfPriceChanged_def dest: notifyPriceChange_frame
      split: option.splits if_splits)

subsection \<open>The writes\<close>

lemma filter_insertImages:
  "filter (\<lambda>i. img_propertyId i \<noteq> pid)
     (map (\<lambda>(k, img). \<lparr>img_id = g k, img_propertyId = pid,
                        img_imageUrl = ii_imageUrl img, img_isPrimary = ii_isPrimary img\<rparr>) xs)
   = []"
  by (induction xs) auto

lemma replaceImages_Inr:
  assumes "replaceImages pid imgs w = (Inr rows, w')"
  shows "w' = w\<lparr>propertyImages := propertyImages w', idCount := idCount w',
                 trace := trace w'\<rparr>"
    and "propertyImages w' =
           filter (\<lambda>i. img_propertyId i \<noteq> pid) (propertyImages w)
           @ map (\<lambda>(j, img). \<lparr>img_id = idGen w (idCount w' - length imgs + j),
                                img_propertyId = pid, img_imageUrl = ii_imageUrl img,
                                img_isPrimary = ii_isPrimary img\<rparr>)
               (zip [0 ..< length imgs] imgs)"
    and "idCount w + length imgs \<le> idCount w'"
  using assms
  by (auto simp add: replaceImages_def Inr_simps selectImagesOf_def deleteImagesOf_def
      insertImages_def Let_def filter_insertImages add.assoc split: if_splits)

lemma updateRow_Inr:
  assumes "updateRow pid input w = (Inr rows, w')"
  shows "w' = w\<lparr>properties := map (\<lambda>p. if p_id p = pid then applyUpdate input (clock w) p
                                          else p) (properties w),
                 trace := trace w'\<rparr>"
  using assms by (auto simp: updateRow_def Inr_simps Let_def)

lemma appendPricingHistory_Inr:
  assumes "appendPricingHistory pid input ex w = (Inr rows, w')"
  shows "w' = w\<lparr>pricingHistory := pricingHistory w @ rows,
                 idCount := idCount w + length rows, trace := trace w'\<rparr>"
    and "rows =
           (if ui_price input \<noteq> None \<or> ui_currency input \<noteq> None
            then [\<lparr>ph_id = idGen w (idCount w), ph_propertyId = pid,
                   ph_price = (case ui_price input of
                                 None \<Rightarrow> p_price ex
                               | Some x \<Rightarrow> if x = 0 then p_price ex else x),
                   ph_currency = orElse (ui_currency input)
                                   (orElse (Some (p_currency ex)) ''USD''),
                   ph_effectiveDate = clock w\<rparr>]
            else [])"
  using assms
  by (auto simp: appendPricingHistory_def insertPricing_def Inr_simps Let_def split: if_splits)

lemma fetchUpdated_Inr:
  assumes "fetchUpdated pid input ex upd images ph w = (Inr r, w')"
  shows "w' = w\<lparr>trace := trace w'\<rparr>"
  using assms
  by (auto simp: fetchUpdated_def Inr_simps selectImagesOf_def selectViewsOf_def
      selectPricingOf_def split: if_splits prod.splits)

text \<open>
  A call that resolves found the row, and ran the writes in a world that differs from
  the first one in the outbox and the trace only.
\<close>

lemma updateProperty_Inr:
  assumes "updateProperty pid input w = (Inr r, w')"
  obtains ex rest w1 where
    "filter (\<lambda>p. p_id p = pid) (properties w) = ex # rest"
    "w1 = w\<lparr>outbox := outbox w1, trace := trace w1\<rparr>"
    "persistUpdate pid input ex w1 = (Inr r, w')"
proof (cases "filter (\<lambda>p. p_id p = pid) (properties w)")
  case Nil
  with assms show thesis
    by (auto simp: updateProperty_def await_Inr select_Inr)
next
  case (Cons ex rest)
  with assms obtain u w1 where
    n: "notifyIfPriceChanged pid input ex (w\<lparr>trace := trace w @ [Stmt Select Properties]\<rparr>)
        = (Inr u, w1)"
    and p: "persistUpdate pid input ex w1 = (Inr r, w')"
    by (auto simp: updateProperty_def await_Inr select_Inr)
  have "w1 = (w\<lparr>trace := trace w @ [Stmt Select Properties]\<rparr>)
               \<lparr>outbox := outbox w1, trace := trace w1\<rparr>"
    by (rule notifyIfPriceChanged_frame [OF n])
  then have "w1 = w\<lparr>outbox := outbox w1, trace := trace w1\<rparr>"
    by simp
  with Cons p show thesis using that by blast
qed

lemma persistUpdate_Inr:
  assumes "persistUpdate pid input ex w = (Inr r, w')"
  defines "n \<equiv> (if ui_price input \<noteq> None \<or> ui_currency input \<noteq> None then 1 else 0 :: nat)"
  shows "pricingHistory w' = pricingHistory w @
           (if ui_price input \<noteq> None \<or> ui_currency input \<noteq> None
            then [\<lparr>ph_id = idGen w (idCount w' - 1), ph_propertyId = pid,
                   ph_price = (case ui_price input of
                                 None \<Rightarrow> p_price ex
                               | Some x \<Rightarrow> if x = 0 then p_price ex else x),
                   ph_currency = orElse (ui_currency input)
                                   (orElse (Some (p_currency ex)) ''USD''),
                   ph_effectiveDate = clock w\<rparr>]
            else [])"
    and "propertyImages w' =
           (case ui_images input of
              None \<Rightarrow> propertyImages w
            | Some imgs \<Rightarrow>
                filter (\<lambda>i. img_propertyId i \<noteq> pid) (propertyImages w)
                @ map (\<lambda>(j, img). \<lparr>img_id = idGen w (idCount w' - n - length imgs + j),
                                     img_propertyId = pid, img_imageUrl = ii_imageUrl img,
                                     img_isPrimary = ii_isPrimary img\<rparr>)
                    (zip [0 ..< length imgs] imgs))"
    and "idCount w + n + (case ui_images input of None \<Rightarrow> 0 | Some imgs \<Rightarrow> length imgs)
           \<le> idCount w'"
    and "outbox w' = outbox w"
proof -
  from assms(1) obtain upd w1 images w2 ph w3 where
    1: "updateRow pid input w = (Inr upd, w1)"
    and 2: "(case ui_images input of
               None \<Rightarrow> ret []
             | Some inputImages \<Rightarrow> replaceImages pid inputImages) w1 = (Inr images, w2)"
    and 3: "appendPricingHistory pid input ex w2 = (Inr ph, w3)"
    and 4: "fetchUpdated pid input ex upd images ph w3 = (Inr r, w')"
    unfolding persistUpdate_def await_Inr by blast
  note a = updateRow_Inr [OF 1]
  have a': "pricingHistory w1 = pricingHistory w" "propertyImages w1 = propertyImages w"
    "idCount w1 = idCount w" "idGen w1 = idGen w" "clock w1 = clock w" "outbox w1 = outbox w"
    by (subst a, simp)+
  have b: "w2 = w1\<lparr>propertyImages := propertyImages w2, idCount := idCount w2,
                    trace := trace w2\<rparr>"
    using 2 by (cases "ui_images input") (auto dest: replaceImages_Inr(1))
  have b': "pricingHistory w2 = pricingHistory w1"
    "idGen w2 = idGen w1" "clock w2 = clock w1" "outbox w2 = outbox w1"
    by (subst b, simp)+
  have bb: "propertyImages w2 =
           (case ui_images input of
              None \<Rightarrow> propertyImages w1
            | Some imgs \<Rightarrow>
                filter (\<lambda>i. img_propertyId i \<noteq> pid) (propertyImages w1)
                @ map (\<lambda>(j, img). \<lparr>img_id = idGen w1 (idCount w2 - length imgs + j),
                                     img_propertyId = pid, img_imageUrl = ii_imageUrl img,
                                     img_isPrimary = ii_isPrimary img\<rparr>)
                    (zip [0 ..< length imgs] imgs))
     \<and> idCount w1 + (case ui_images input of None \<Rightarrow> 0 | Some imgs \<Rightarrow> length imgs)
         \<le> idCount w2"
  proof (cases "ui_images input")
    case None
    with 2 show ?thesis by auto
  next
    case (Some imgs)
    with 2 have r: "replaceImages pid imgs w1 = (Inr images, w2)" by simp
    from replaceImages_Inr(2,3) [OF r] Some show ?thesis by simp
  qed
  note b'' = bb [THEN conjunct1] and b3 = bb [THEN conjunct2]
  note c0 = appendPricingHistory_Inr(1) [OF 3] and ph = appendPricingHistory_Inr(2) [OF 3]
  have c': "pricingHistory w3 = pricingHistory w2 @ ph" "idCount w3 = idCount w2 + length ph"
    "propertyImages w3 = propertyImages w2" "outbox w3 = outbox w2"
    by (subst c0, simp)+
  note d = fetchUpdated_Inr [OF 4]
  have d': "pricingHistory w' = pricingHistory w3" "idCount w' = idCount w3"
    "propertyImages w' = propertyImages w3" "outbox w' = outbox w3"
    by (subst d, simp)+
  have len: "length ph = n" by (simp add: ph n_def)
  show "outbox w' = outbox w"
    by (simp add: d' c' b' a')
  show "pricingHistory w' = pricingHistory w @
           (if ui_price input \<noteq> None \<or> ui_currency input \<noteq> None
            then [\<lparr>ph_id = idGen w (idCount w' - 1), ph_propertyId = pid,
                   ph_price = (case ui_price input of
                                 None \<Rightarrow> p_price ex
                               | Some x \<Rightarrow> if x = 0 then p_price ex else x),
                   ph_currency = orElse (ui_currency input)
                                   (orElse (Some (p_currency ex)) ''USD''),
                   ph_effectiveDate = clock w\<rparr>]
            else [])"
    by (simp add: d' c' b' a' ph)
  show "propertyImages w' =
           (case ui_images input of
              None \<Rightarrow> propertyImages w
            | Some imgs \<Rightarrow>
                filter (\<lambda>i. img_propertyId i \<noteq> pid) (propertyImages w)
                @ map (\<lambda>(j, img). \<lparr>img_id = idGen w (idCount w' - n - length imgs + j),
                                     img_propertyId = pid, img_imageUrl = ii_imageUrl img,
                                     img_isPrimary = ii_isPrimary img\<rparr>)
                    (zip [0 ..< length imgs] imgs))"
    by (simp add: d' c' b'' a' len split: option.splits)
  show "idCount w + n + (case ui_images input of None \<Rightarrow> 0 | Some imgs \<Rightarrow> length imgs)
          \<le> idCount w'"
    using b3 by (simp add: d' c' a' len)
qed

text \<open>On a store that answers every statement the writes and the reads resolve.\<close>

lemma persistUpdate_total:
  assumes "dbFault w = (\<lambda>_. None)"
  shows "\<exists>r w'. persistUpdate pid input ex w = (Inr r, w')"
proof (cases "ui_images input")
  case None
  with assms show ?thesis
    by (simp add: persistUpdate_def updateRow_def appendPricingHistory_def insertPricing_def
        fetchUpdated_def selectImagesOf_def selectViewsOf_def selectPricingOf_def
        await_def run_def select_def promiseBoth_def ret_def Let_def)
next
  case (Some imgs)
  with assms show ?thesis
    by (simp add: persistUpdate_def updateRow_def replaceImages_def deleteImagesOf_def
        insertImages_def appendPricingHistory_def insertPricing_def
        fetchUpdated_def selectImagesOf_def selectViewsOf_def selectPricingOf_def
        await_def run_def select_def promiseBoth_def ret_def Let_def)
qed

lemma updateProperty_images_Inr:
  assumes "updateProperty pid input w = (Inr r, w')" and "ui_images input = Some imgs"
  shows "(\<exists>k. idCount w \<le> k \<and>
           propertyImages w' =
             filter (\<lambda>i. img_propertyId i \<noteq> pid) (propertyImages w)
             @ map (\<lambda>(j, img). \<lparr>img_id = idGen w (k + j), img_propertyId = pid,
                                  img_imageUrl = ii_imageUrl img,
                                  img_isPrimary = ii_isPrimary img\<rparr>)
                 (zip [0 ..< length imgs] imgs))
       \<and> map (\<lambda>i. (img_imageUrl i, img_isPrimary i))
             (filter (\<lambda>i. img_propertyId i = pid) (propertyImages w'))
           = map (\<lambda>i. (ii_imageUrl i, ii_isPrimary i)) imgs"
proof -
  from assms(1) obtain ex rest w1 where
    w1: "w1 = w\<lparr>outbox := outbox w1, trace := trace w1\<rparr>"
    and p: "persistUpdate pid input ex w1 = (Inr r, w')"
    by (rule updateProperty_Inr)
  have f: "propertyImages w1 = propertyImages w" "idGen w1 = idGen w" "idCount w1 = idCount w"
    by (subst w1, simp)+
  define n where
    "n = (if ui_price input \<noteq> None \<or> ui_currency input \<noteq> None then 1 else 0 :: nat)"
  define k where "k = idCount w' - n - length imgs"
  have eq: "propertyImages w' =
             filter (\<lambda>i. img_propertyId i \<noteq> pid) (propertyImages w)
             @ map (\<lambda>(j, img). \<lparr>img_id = idGen w (k + j), img_propertyId = pid,
                                  img_imageUrl = ii_imageUrl img,
                                  img_isPrimary = ii_isPrimary img\<rparr>)
                 (zip [0 ..< length imgs] imgs)"
    using persistUpdate_Inr(2) [OF p] assms(2) by (simp add: f k_def n_def)
  have le: "idCount w \<le> k"
    using persistUpdate_Inr(3) [OF p] assms(2) by (simp add: f k_def n_def)
  have "map (\<lambda>i. (img_imageUrl i, img_isPrimary i))
          (filter (\<lambda>i. img_propertyId i = pid) (propertyImages w'))
        = map ((\<lambda>i. (ii_imageUrl i, ii_isPrimary i)) \<circ> snd) (zip [0 ..< length imgs] imgs)"
    by (simp add: eq filter_map o_def split_def)
  also have "\<dots> = map (\<lambda>i. (ii_imageUrl i, ii_isPrimary i)) imgs"
    by (simp only: map_map [symmetric] map_snd_zip length_upt diff_zero)
  finally show ?thesis using eq le by blast
qed

lemma updateProperty_pricing_row:
  assumes "updateProperty pid input w = (Inr r, w')"
  shows "\<exists>existing rest.
           filter (\<lambda>p. p_id p = pid) (properties w) = existing # rest
           \<and> pricingHistory w' = pricingHistory w @
               (if ui_price input \<noteq> None \<or> ui_currency input \<noteq> None
                then [\<lparr>ph_id = idGen w (idCount w' - 1), ph_propertyId = pid,
                       ph_price = (case ui_price input of
                                     None \<Rightarrow> p_price existing
                                   | Some x \<Rightarrow> if x = 0 then p_price existing else x),
                       ph_currency = orElse (ui_currency input)
                                       (orElse (Some (p_currency existing)) ''USD''),
                       ph_effectiveDate = clock w\<rparr>]
                else [])"
proof -
  from assms obtain ex rest w1 where
    e: "filter (\<lambda>p. p_id p = pid) (properties w) = ex # rest"
    and w1: "w1 = w\<lparr>outbox := outbox w1, trace := trace w1\<rparr>"
    and p: "persistUpdate pid input ex w1 = (Inr r, w')"
    by (rule updateProperty_Inr)
  have f: "pricingHistory w1 = pricingHistory w" "idGen w1 = idGen w" "clock w1 = clock w"
    by (subst w1, simp)+
  from persistUpdate_Inr(1) [OF p] e show ?thesis
    by (simp only: f) blast
qed

section \<open>The two readers\<close>

lemmas listing_defs = villa_def cabin_def listingWorld_def scrub_def fanoutWorld_def

lemmas get_defs =
  getProperties_def selectByFilter_def selectListing_def withRelations_def
  leftJoin_def ownerOf_def wideOwner_def narrowOwner_def projectOwner_def isPropertyWished_def

lemmas getProperty_defs =
  getProperty_def joinProperty_def leftJoin_def ownerOf_def
  narrowOwner_def projectOwner_def isPropertyWished_def foldRow_def

subsection \<open>getProperties as a function of the store\<close>

lemma in_leftJoin:
  "(x, y) \<in> set (leftJoin xs m) \<longleftrightarrow>
     x \<in> set xs \<and> (case y of None \<Rightarrow> m x = [] | Some z \<Rightarrow> z \<in> set (m x))"
  by (induction xs) (auto simp: leftJoin_def split: list.splits option.splits)

lemma fst_leftJoin: "fst ` set (leftJoin xs m) = set xs"
proof -
  have "\<exists>y. (case y of None \<Rightarrow> m x = [] | Some z \<Rightarrow> z \<in> set (m x))" for x
    by (cases "m x") (auto intro: exI [of _ None] exI [of _ "Some _"])
  then show ?thesis
    by (auto simp: in_leftJoin image_iff) (metis fst_conv in_leftJoin)
qed

lemma projectOwner_narrow: "projectOwner (map_option narrowOwner u) = ownerView u"
  by (cases u) (simp_all add: projectOwner_def narrowOwner_def)

lemma projectOwner_wide: "projectOwner (map_option wideOwner u) = ownerView u"
  by (cases u) (simp_all add: projectOwner_def wideOwner_def)

lemma isPropertyWished_eq:
  assumes "dbFault w (Select, Wishlist) = None"
  shows "\<exists>tr. isPropertyWished pid uid w = (Inr (wishedBy uid w pid), w\<lparr>trace := tr\<rparr>)"
proof (cases uid)
    case None
    then have "isPropertyWished pid uid w = (Inr (wishedBy uid w pid), w\<lparr>trace := trace w\<rparr>)"
      by (simp add: isPropertyWished_def wishedBy_def)
    then show ?thesis by blast
  next
    case (Some u)
    show ?thesis
    proof (cases "u = []")
      case True
      with Some have "isPropertyWished pid uid w = (Inr (wishedBy uid w pid), w\<lparr>trace := trace w\<rparr>)"
        by (simp add: isPropertyWished_def wishedBy_def)
      then show ?thesis by blast
    next
      case False
      with Some assms have "isPropertyWished pid uid w =
          (Inr (wishedBy uid w pid), w\<lparr>trace := trace w @ [Stmt Select Wishlist]\<rparr>)"
        by (simp add: isPropertyWished_def wishedBy_def run_defs)
      then show ?thesis by blast
    qed
qed

lemma wishedBy_trace [simp]: "wishedBy uid (w\<lparr>trace := tr\<rparr>) = wishedBy uid w"
  by (cases uid) (simp_all add: wishedBy_def fun_eq_iff)

lemma promiseAll_wished:
  assumes "dbFault w (Select, Wishlist) = None"
  shows "\<exists>tr. promiseAll (map (\<lambda>pid. isPropertyWished pid uid) ids) w
              = (Inr (map (wishedBy uid w) ids), w\<lparr>trace := tr\<rparr>)"
  using assms
proof (induction ids arbitrary: w)
  case Nil
  have "promiseAll (map (\<lambda>pid. isPropertyWished pid uid) []) w
        = (Inr (map (wishedBy uid w) []), w\<lparr>trace := trace w\<rparr>)"
    by simp
  then show ?case by blast
next
  case (Cons p ids)
  from isPropertyWished_eq [OF Cons.prems] obtain tr1 where
    h: "isPropertyWished p uid w = (Inr (wishedBy uid w p), w\<lparr>trace := tr1\<rparr>)" by blast
  have "dbFault (w\<lparr>trace := tr1\<rparr>) (Select, Wishlist) = None"
    using Cons.prems by simp
  from Cons.IH [OF this] obtain tr2 where
    t: "promiseAll (map (\<lambda>pid. isPropertyWished pid uid) ids) (w\<lparr>trace := tr1\<rparr>)
        = (Inr (map (wishedBy uid w) ids), w\<lparr>trace := tr2\<rparr>)"
    by auto
  have "promiseAll (map (\<lambda>pid. isPropertyWished pid uid) (p # ids)) w
        = (Inr (map (wishedBy uid w) (p # ids)), w\<lparr>trace := tr2\<rparr>)"
    by (simp add: await_def promiseBoth_def h t)
  then show ?case by blast
qed

lemma zip_map_same: "zip xs (map f xs) = map (\<lambda>x. (x, f x)) xs"
  by (induction xs) auto

lemma withRelations_fst:
  assumes "dbFault w = (\<lambda>_. None)"
  shows "fst (withRelations uid L w) =
     Inr (map (\<lambda>(p, c). \<lparr>r_property = p,
                r_images = filter (\<lambda>i. img_propertyId i = p_id p) (propertyImages w),
                r_views = filter (\<lambda>v. v_propertyId v = p_id p) (propertyViews w),
                r_pricingHistory = filter (\<lambda>h. ph_propertyId h = p_id p) (pricingHistory w),
                r_owner = projectOwner c,
                r_isWished = wishedBy uid w (p_id p)\<rparr>) L)"
proof (cases "L = []")
  case True
  then show ?thesis by (simp add: withRelations_def ret_def)
next
  case False
  define ids where "ids = map (\<lambda>(property, owner). p_id property) L"
  define w3 where "w3 = w\<lparr>trace := trace w @ [Stmt Select PropertyImages, Stmt Select PropertyViews, Stmt Select PricingHistory]\<rparr>"
  have "dbFault w3 (Select, Wishlist) = None" using assms by (simp add: w3_def)
  from promiseAll_wished [OF this] obtain tr where
    t: "promiseAll (map (\<lambda>pid. isPropertyWished pid uid) ids) w3
        = (Inr (map (wishedBy uid w) ids), w3\<lparr>trace := tr\<rparr>)"
    by (auto simp: w3_def)
  have m: "p_id p \<in> set ids" if "(p, c) \<in> set L" for p c
    using that by (force simp: ids_def)
  have ff: "filter (\<lambda>x. k x \<in> set ids \<and> k x = i) xs = filter (\<lambda>x. k x = i) xs"
    if "i \<in> set ids" for i and k :: "'x \<Rightarrow> ident" and xs
    using that by (induction xs) auto
  have "fst (withRelations uid L w) =
     Inr (map (\<lambda>((p, c), b). \<lparr>r_property = p,
                r_images = filter (\<lambda>i. img_propertyId i = p_id p) (filter (\<lambda>i. img_propertyId i \<in> set ids) (propertyImages w)),
                r_views = filter (\<lambda>v. v_propertyId v = p_id p) (filter (\<lambda>v. v_propertyId v \<in> set ids) (propertyViews w)),
                r_pricingHistory = filter (\<lambda>h. ph_propertyId h = p_id p) (filter (\<lambda>h. ph_propertyId h \<in> set ids) (pricingHistory w)),
                r_owner = projectOwner c,
                r_isWished = b\<rparr>) (zip L (map (wishedBy uid w) ids)))"
    using False assms t
    by (simp add: withRelations_def ids_def [symmetric] run_defs w3_def)
  also have "zip L (map (wishedBy uid w) ids) = map (\<lambda>x. (x, wishedBy uid w (p_id (fst x)))) L"
    by (simp add: ids_def zip_map_same [symmetric] split_def o_def)
  finally show ?thesis
    by (auto simp: o_def split_def ff m intro!: map_cong)
qed

lemma ownerOf_trace [simp]: "ownerOf (w\<lparr>trace := tr\<rparr>) = ownerOf w"
  by (simp add: ownerOf_def fun_eq_iff)

lemma selectListing_then:
  assumes "dbFault w = (\<lambda>_. None)"
  shows "fst (await (selectListing cols cond) (withRelations uid) w) =
     Inr (map (\<lambda>(p, u). \<lparr>r_property = p,
                r_images = filter (\<lambda>i. img_propertyId i = p_id p) (propertyImages w),
                r_views = filter (\<lambda>v. v_propertyId v = p_id p) (propertyViews w),
                r_pricingHistory = filter (\<lambda>h. ph_propertyId h = p_id p) (pricingHistory w),
                r_owner = projectOwner (map_option cols u),
                r_isWished = wishedBy uid w (p_id p)\<rparr>)
           (filter (\<lambda>(p, u). cond p) (leftJoin (properties w) (ownerOf w))))"
proof -
  define w1 where "w1 = w\<lparr>trace := trace w @ [Stmt Select Properties]\<rparr>"
  define L where "L = map (\<lambda>(p, u). (p, map_option cols u))
                        (filter (\<lambda>(p, u). cond p) (leftJoin (properties w) (ownerOf w)))"
  have s: "selectListing cols cond w = (Inr L, w1)"
    using assms by (simp add: selectListing_def run_defs w1_def L_def)
  have n: "dbFault w1 = (\<lambda>_. None)" using assms by (simp add: w1_def)
  have "fst (await (selectListing cols cond) (withRelations uid) w) = fst (withRelations uid L w1)"
    by (simp add: await_def s)
  also note withRelations_fst [OF n]
  finally show ?thesis
    by (simp add: w1_def L_def o_def split_def)
qed

lemma getProperties_fst:
  assumes "dbFault w = (\<lambda>_. None)"
  shows "fst (getProperties filterArg userId w) =
     Inr (map (aggregate userId w)
           (filter (\<lambda>(p, u). visible (case filterArg of None \<Rightarrow> ''active'' | Some f \<Rightarrow> f) p)
              (leftJoin (properties w) (ownerOf w))))"
proof -
  define f where "f = (case filterArg of None \<Rightarrow> ''active'' | Some f \<Rightarrow> f)"
  have g: "getProperties filterArg userId w = await (selectByFilter f) (withRelations userId) w"
    by (simp add: getProperties_def f_def)
  consider "f = ''active''" | "f = ''sold_rented''" | "f = ''inactive''"
    | "f \<noteq> ''active''" "f \<noteq> ''sold_rented''" "f \<noteq> ''inactive''"
    by blast
  then have "fst (await (selectByFilter f) (withRelations userId) w) =
     Inr (map (aggregate userId w)
           (filter (\<lambda>(p, u). visible f p) (leftJoin (properties w) (ownerOf w))))"
  proof cases
    case 1
    then show ?thesis
      by (simp add: selectByFilter_def selectListing_then [OF assms] visible_def
          projectOwner_wide aggregate_def split_def)
  next
    case 2
    then show ?thesis
      by (simp add: selectByFilter_def selectListing_then [OF assms] visible_def
          projectOwner_narrow aggregate_def split_def)
  next
    case 3
    then show ?thesis
      by (simp add: selectByFilter_def selectListing_then [OF assms] visible_def
          projectOwner_narrow aggregate_def split_def)
  next
    case 4
    then show ?thesis
      by (simp add: selectByFilter_def selectListing_then [OF assms] visible_def
          projectOwner_narrow aggregate_def split_def)
  qed
  then show ?thesis by (simp add: g f_def)
qed

lemma set_filter_leftJoin:
  "fst ` set (filter (\<lambda>(p, u). c p) (leftJoin xs m)) = {p \<in> set xs. c p}"
proof -
  have "fst ` set (filter (\<lambda>(p, u). c p) (leftJoin xs m)) = {p \<in> fst ` set (leftJoin xs m). c p}"
    by force
  then show ?thesis by (simp add: fst_leftJoin)
qed

lemma r_property_aggregate [simp]: "r_property (aggregate uid w row) = fst row"
  and r_owner_aggregate [simp]: "r_owner (aggregate uid w row) = ownerView (snd row)"
  by (simp_all add: aggregate_def)

lemma leftJoin_map:
  "leftJoin xs (\<lambda>x. map g (m x)) = map (\<lambda>(x, y). (x, map_option g y)) (leftJoin xs m)"
  by (induction xs) (auto simp: leftJoin_def split: list.splits)

subsection \<open>The fold of getProperty\<close>

lemma foldRow_Some:
  assumes "p_id (r_property a) \<noteq> []"
  shows "foldRow b (Some a) row =
     Some (a\<lparr>r_images := addById img_id (r_images a) (rowImage row),
             r_views := addById v_id (r_views a) (rowView row),
             r_pricingHistory := addById ph_id (r_pricingHistory a) (rowPricing row)\<rparr>)"
  using assms
  by (simp add: foldRow_def addById_def rowImage_def rowView_def rowPricing_def Let_def
      split: prod.splits option.splits)

lemma foldRow_None:
  "foldRow b None row =
     Some \<lparr>r_property = rowProperty row,
           r_images = addById img_id [] (rowImage row),
           r_views = addById v_id [] (rowView row),
           r_pricingHistory = addById ph_id [] (rowPricing row),
           r_owner = projectOwner (snd row), r_isWished = b\<rparr>"
  by (simp add: foldRow_def addById_def rowImage_def rowView_def rowPricing_def rowProperty_def
      Let_def split: prod.splits option.splits)

lemma foldl_foldRow_Some:
  assumes "p_id (r_property a) \<noteq> []"
  shows "foldl (foldRow b) (Some a) rows =
     Some (a\<lparr>r_images := foldl (addById img_id) (r_images a) (map rowImage rows),
             r_views := foldl (addById v_id) (r_views a) (map rowView rows),
             r_pricingHistory :=
               foldl (addById ph_id) (r_pricingHistory a) (map rowPricing rows)\<rparr>)"
  using assms
  by (induction rows arbitrary: a) (simp_all add: foldRow_Some)

lemma foldl_foldRow_None:
  assumes "p_id (rowProperty row) \<noteq> []"
  shows "foldl (foldRow b) None (row # rows) =
     Some \<lparr>r_property = rowProperty row,
           r_images = foldl (addById img_id) [] (map rowImage (row # rows)),
           r_views = foldl (addById v_id) [] (map rowView (row # rows)),
           r_pricingHistory = foldl (addById ph_id) [] (map rowPricing (row # rows)),
           r_owner = projectOwner (snd row), r_isWished = b\<rparr>"
  using assms by (simp add: foldRow_None foldl_foldRow_Some)

lemma set_addById: "set (addById key acc x) \<subseteq> set acc \<union> set_option x"
  by (auto simp: addById_def split: option.splits if_splits)

lemma key_addById: "key ` set (addById key acc x) = key ` (set acc \<union> set_option x)"
  by (auto simp: addById_def list_ex_iff split: option.splits if_splits intro: rev_image_eqI)

lemma distinct_addById:
  "distinct (map key acc) \<Longrightarrow> distinct (map key (addById key acc x))"
  by (auto simp: addById_def list_ex_iff split: option.splits)

lemma foldl_addById:
  assumes "distinct (map key acc)"
  shows "distinct (map key (foldl (addById key) acc xs))
       \<and> set (foldl (addById key) acc xs) \<subseteq> set acc \<union> \<Union> (set_option ` set xs)
       \<and> key ` set (foldl (addById key) acc xs) = key ` (set acc \<union> \<Union> (set_option ` set xs))"
  using assms
proof (induction xs arbitrary: acc)
  case Nil
  then show ?case by simp
next
  case (Cons x xs)
  note ih = Cons.IH [OF distinct_addById [OF Cons.prems, of x]]
  have s: "set (addById key acc x) \<subseteq> set acc \<union> set_option x" by (rule set_addById)
  have k: "key ` set (addById key acc x) = key ` (set acc \<union> set_option x)" by (rule key_addById)
  show ?case
  proof (intro conjI)
    show "distinct (map key (foldl (addById key) acc (x # xs)))"
      using ih by simp
    show "set (foldl (addById key) acc (x # xs)) \<subseteq> set acc \<union> \<Union> (set_option ` set (x # xs))"
      using ih s by auto
    have "key ` set (foldl (addById key) acc (x # xs))
          = key ` set (addById key acc x) \<union> key ` \<Union> (set_option ` set xs)"
      using ih by (simp add: image_Un)
    also have "\<dots> = key ` (set acc \<union> \<Union> (set_option ` set (x # xs)))"
      by (simp add: k image_Un Un_assoc)
    finally show "key ` set (foldl (addById key) acc (x # xs))
          = key ` (set acc \<union> \<Union> (set_option ` set (x # xs)))" .
  qed
qed

lemma oneRowPerId_foldl:
  assumes "\<Union> (set_option ` set xs) = S"
  shows "oneRowPerId key (foldl (addById key) [] xs) S"
proof -
  from foldl_addById [of key "[]" xs] assms
  have d: "distinct (map key (foldl (addById key) [] xs))"
    and s: "set (foldl (addById key) [] xs) \<subseteq> S"
    and k: "key ` set (foldl (addById key) [] xs) = key ` S"
    by simp_all
  have "length (foldl (addById key) [] xs) = length (map key (foldl (addById key) [] xs))"
    by simp
  also have "\<dots> = card (set (map key (foldl (addById key) [] xs)))"
    using d by (rule distinct_card [symmetric])
  also have "\<dots> = card (key ` S)"
    using k by simp
  finally show ?thesis
    using d s k by (simp add: oneRowPerId_def)
qed

subsection \<open>The rows of the join\<close>

lemma in_leftJoin': "(x, y) \<in> set (leftJoin xs m) \<longleftrightarrow> x \<in> set xs \<and> joined (m x) y"
  by (simp add: in_leftJoin joined_def)

lemma joined_ex: "\<exists>y. joined ms y"
  by (cases ms) (auto simp: joined_def intro: exI [of _ None] exI [of _ "Some _"])

lemma joined_Some [simp]: "joined ms (Some z) \<longleftrightarrow> z \<in> set ms"
  by (simp add: joined_def)

lemma in_map_owner:
  "(r, c) \<in> set (map (\<lambda>(r, u). (r, map_option f u)) J)
     \<longleftrightarrow> (\<exists>u. (r, u) \<in> set J \<and> c = map_option f u)"
  by (induction J) auto

lemma in_joinProperty:
  "((((p, i), v), h), c) \<in> set (joinProperty pid w) \<longleftrightarrow>
     p \<in> set (properties w) \<and> p_id p = pid
     \<and> joined (filter (\<lambda>x. img_propertyId x = pid) (propertyImages w)) i
     \<and> joined (filter (\<lambda>x. v_propertyId x = pid) (propertyViews w)) v
     \<and> joined (filter (\<lambda>x. ph_propertyId x = pid) (pricingHistory w)) h
     \<and> (\<exists>u. joined (ownerOf w p) u \<and> c = map_option narrowOwner u)"
  unfolding joinProperty_def in_map_owner in_leftJoin'
  by auto

lemma row_cases:
  obtains p i v h c where "(row :: joinedRow) = ((((p, i), v), h), c)"
  by (metis prod.collapse)

lemma joinProperty_property:
  "row \<in> set (joinProperty pid w) \<Longrightarrow> p_id (rowProperty row) = pid"
  by (cases row rule: row_cases) (simp add: rowProperty_def in_joinProperty)

lemma joinProperty_nonempty:
  assumes "p \<in> set (properties w)" and "p_id p = pid"
  shows "joinProperty pid w \<noteq> []"
proof -
  obtain i v h u where
    "joined (filter (\<lambda>y. img_propertyId y = pid) (propertyImages w)) i"
    "joined (filter (\<lambda>y. v_propertyId y = pid) (propertyViews w)) v"
    "joined (filter (\<lambda>y. ph_propertyId y = pid) (pricingHistory w)) h"
    "joined (ownerOf w p) u"
    using joined_ex by metis
  with assms have "((((p, i), v), h), map_option narrowOwner u) \<in> set (joinProperty pid w)"
    by (auto simp: in_joinProperty)
  then show ?thesis by auto
qed

lemma joinProperty_images:
  assumes "p \<in> set (properties w)" and "p_id p = pid"
  shows "\<Union> (set_option ` set (map rowImage (joinProperty pid w)))
         = {i \<in> set (propertyImages w). img_propertyId i = pid}"
proof (rule set_eqI)
  fix x
  show "x \<in> \<Union> (set_option ` set (map rowImage (joinProperty pid w)))
        \<longleftrightarrow> x \<in> {i \<in> set (propertyImages w). img_propertyId i = pid}"
  proof
    assume "x \<in> \<Union> (set_option ` set (map rowImage (joinProperty pid w)))"
    then obtain r where r: "r \<in> set (joinProperty pid w)" "rowImage r = Some x"
      by (auto simp: elem_set)
    then show "x \<in> {i \<in> set (propertyImages w). img_propertyId i = pid}"
      by (cases r rule: row_cases) (simp add: rowImage_def in_joinProperty)
  next
    assume "x \<in> {i \<in> set (propertyImages w). img_propertyId i = pid}"
    then have x: "x \<in> set (propertyImages w)" "img_propertyId x = pid" by simp_all
    obtain v h u where
      "joined (filter (\<lambda>y. v_propertyId y = pid) (propertyViews w)) v"
      "joined (filter (\<lambda>y. ph_propertyId y = pid) (pricingHistory w)) h"
      "joined (ownerOf w p) u"
      using joined_ex by metis
    with x assms
    have "((((p, Some x), v), h), map_option narrowOwner u) \<in> set (joinProperty pid w)"
      by (auto simp: in_joinProperty)
    then have "Some x \<in> rowImage ` set (joinProperty pid w)"
      by (force simp: rowImage_def)
    then show "x \<in> \<Union> (set_option ` set (map rowImage (joinProperty pid w)))"
      by (auto simp: elem_set)
  qed
qed

lemma joinProperty_views:
  assumes "p \<in> set (properties w)" and "p_id p = pid"
  shows "\<Union> (set_option ` set (map rowView (joinProperty pid w)))
         = {v \<in> set (propertyViews w). v_propertyId v = pid}"
proof (rule set_eqI)
  fix x
  show "x \<in> \<Union> (set_option ` set (map rowView (joinProperty pid w)))
        \<longleftrightarrow> x \<in> {v \<in> set (propertyViews w). v_propertyId v = pid}"
  proof
    assume "x \<in> \<Union> (set_option ` set (map rowView (joinProperty pid w)))"
    then obtain r where r: "r \<in> set (joinProperty pid w)" "rowView r = Some x"
      by (auto simp: elem_set)
    then show "x \<in> {v \<in> set (propertyViews w). v_propertyId v = pid}"
      by (cases r rule: row_cases) (simp add: rowView_def in_joinProperty)
  next
    assume "x \<in> {v \<in> set (propertyViews w). v_propertyId v = pid}"
    then have x: "x \<in> set (propertyViews w)" "v_propertyId x = pid" by simp_all
    obtain i h u where
      "joined (filter (\<lambda>y. img_propertyId y = pid) (propertyImages w)) i"
      "joined (filter (\<lambda>y. ph_propertyId y = pid) (pricingHistory w)) h"
      "joined (ownerOf w p) u"
      using joined_ex by metis
    with x assms
    have "((((p, i), Some x), h), map_option narrowOwner u) \<in> set (joinProperty pid w)"
      by (auto simp: in_joinProperty)
    then have "Some x \<in> rowView ` set (joinProperty pid w)"
      by (force simp: rowView_def)
    then show "x \<in> \<Union> (set_option ` set (map rowView (joinProperty pid w)))"
      by (auto simp: elem_set)
  qed
qed

lemma joinProperty_pricing:
  assumes "p \<in> set (properties w)" and "p_id p = pid"
  shows "\<Union> (set_option ` set (map rowPricing (joinProperty pid w)))
         = {h \<in> set (pricingHistory w). ph_propertyId h = pid}"
proof (rule set_eqI)
  fix x
  show "x \<in> \<Union> (set_option ` set (map rowPricing (joinProperty pid w)))
        \<longleftrightarrow> x \<in> {h \<in> set (pricingHistory w). ph_propertyId h = pid}"
  proof
    assume "x \<in> \<Union> (set_option ` set (map rowPricing (joinProperty pid w)))"
    then obtain r where r: "r \<in> set (joinProperty pid w)" "rowPricing r = Some x"
      by (auto simp: elem_set)
    then show "x \<in> {h \<in> set (pricingHistory w). ph_propertyId h = pid}"
      by (cases r rule: row_cases) (simp add: rowPricing_def in_joinProperty)
  next
    assume "x \<in> {h \<in> set (pricingHistory w). ph_propertyId h = pid}"
    then have x: "x \<in> set (pricingHistory w)" "ph_propertyId x = pid" by simp_all
    obtain i v u where
      "joined (filter (\<lambda>y. img_propertyId y = pid) (propertyImages w)) i"
      "joined (filter (\<lambda>y. v_propertyId y = pid) (propertyViews w)) v"
      "joined (ownerOf w p) u"
      using joined_ex by metis
    with x assms
    have "((((p, i), v), Some x), map_option narrowOwner u) \<in> set (joinProperty pid w)"
      by (auto simp: in_joinProperty)
    then have "Some x \<in> rowPricing ` set (joinProperty pid w)"
      by (force simp: rowPricing_def)
    then show "x \<in> \<Union> (set_option ` set (map rowPricing (joinProperty pid w)))"
      by (auto simp: elem_set)
  qed
qed

section \<open>Claims about updateProperty\<close>

text \<open>
  C2, as the code has it. Let the property exist, let the input supply a price that
  differs from the stored one, and let the store answer every statement. Then one
  notification, carrying the title, the address (or \<^verbatim>\<open>"N/A"\<close>), the old price and
  the new price, is dispatched to each user row whose id is on the property's wishlist
  and whose email is neither null nor empty: all of them, whether or not a dispatch
  rejects. If no dispatch rejects, \<open>updateProperty\<close> returns. If one rejects,
  \<open>updateProperty\<close> rejects with the error of the first such dispatch and the property
  row is left as it was: the \<^verbatim>\<open>await Promise.all\<close> stands before the update
  statement and nothing catches its rejection.
\<close>

theorem updateProperty_price_change_notifies:
  assumes "filter (\<lambda>p. p_id p = pid) (properties w) = existing # rest"
    and "ui_price input = Some newPrice" and "newPrice \<noteq> p_price existing"
    and "dbFault w = (\<lambda>_. None)"
  shows "outbox (snd (updateProperty pid input w)) =
           outbox w @ map (\<lambda>e. (e, detailsOf existing newPrice)) (recipients (wishers pid w))
       \<and> (case firstFault (mailFault w) (recipients (wishers pid w)) of
            None \<Rightarrow> \<not> isl (fst (updateProperty pid input w))
          | Some m \<Rightarrow> fst (updateProperty pid input w) = Inl (Error m)
                      \<and> properties (snd (updateProperty pid input w)) = properties w)"
proof -
  define w0 where "w0 = w\<lparr>trace := trace w @ [Stmt Select Properties]\<rparr>"
  define w1 where
    "w1 = w0\<lparr>outbox := outbox w0 @ map (\<lambda>e. (e, detailsOf existing newPrice))
                                     (recipients (wishers pid w0)),
              trace := trace w0 @ [Stmt Select Wishlist, Stmt Select Users]\<rparr>"
  have f0: "dbFault w0 = (\<lambda>_. None)" "mailFault w0 = mailFault w"
    "wishers pid w0 = wishers pid w" "outbox w0 = outbox w" "properties w0 = properties w"
    using assms(4) by (simp_all add: w0_def wishers_def)
  have n: "notifyIfPriceChanged pid input existing w0 =
     ((case firstFault (mailFault w) (recipients (wishers pid w)) of
         Some m \<Rightarrow> Inl (Error m) | None \<Rightarrow> Inr ()), w1)"
    using assms(2,3) notifyPriceChange_eq [of w0 pid existing newPrice]
    by (simp add: notifyIfPriceChanged_def f0 w1_def)
  have u: "updateProperty pid input w =
     await (notifyIfPriceChanged pid input existing) (\<lambda>_. persistUpdate pid input existing) w0"
    using assms(1,4) by (simp add: updateProperty_def await_def select_def run_def w0_def)
  have f1: "dbFault w1 = (\<lambda>_. None)" "properties w1 = properties w"
    "outbox w1 = outbox w @ map (\<lambda>e. (e, detailsOf existing newPrice))
                               (recipients (wishers pid w))"
    by (simp_all add: w1_def f0)
  show ?thesis
  proof (cases "firstFault (mailFault w) (recipients (wishers pid w))")
    case (Some m)
    with n u have "updateProperty pid input w = (Inl (Error m), w1)"
      by (simp add: await_def)
    with Some f1 show ?thesis by simp
  next
    case None
    from persistUpdate_total [OF f1(1)] obtain r w'
      where p: "persistUpdate pid input existing w1 = (Inr r, w')" by blast
    with n u None have "updateProperty pid input w = (Inr r, w')"
      by (simp add: await_def)
    with None f1 persistUpdate_Inr(4) [OF p] show ?thesis by simp
  qed
qed

text \<open>
  The theorem on the listing with three wishlisting users: raising the price from 100 to
  120 dispatches three notifications and returns.
\<close>

theorem updateProperty_price_change_notifies_witness:
  "outbox (snd (updateProperty ''p1'' (noChange\<lparr>ui_price := Some 120\<rparr>) marketWorld)) =
     [(''bob@example.com'',
       \<lparr>pd_name = ''Flat'', pd_address = ''Main St 1'', pd_oldPrice = 100, pd_newPrice = 120\<rparr>),
      (''carol@example.com'',
       \<lparr>pd_name = ''Flat'', pd_address = ''Main St 1'', pd_oldPrice = 100, pd_newPrice = 120\<rparr>),
      (''dave@example.com'',
       \<lparr>pd_name = ''Flat'', pd_address = ''Main St 1'', pd_oldPrice = 100, pd_newPrice = 120\<rparr>)]
   \<and> \<not> isl (fst (updateProperty ''p1'' (noChange\<lparr>ui_price := Some 120\<rparr>) marketWorld))"
proof -
  have h1: "filter (\<lambda>p. p_id p = ''p1'') (properties marketWorld) = flat # []"
    by (simp add: world_defs)
  have h2: "ui_price (noChange\<lparr>ui_price := Some 120\<rparr>) = Some 120" by simp
  have h3: "(120::int) \<noteq> p_price flat" by (simp add: flat_def)
  have h4: "dbFault marketWorld = (\<lambda>_. None)" by (simp add: world_defs)
  show ?thesis
    using updateProperty_price_change_notifies [OF h1 h2 h3 h4]
    by (simp add: world_defs wishers_def detailsOf_def)
qed

text \<open>
  C2 as stated fails: when the dispatch to one of the three users rejects, all three
  dispatches have been made, but \<open>updateProperty\<close> rejects with that error and the row
  keeps its old price.
\<close>

theorem updateProperty_aborts_on_failed_dispatch:
  "fst (updateProperty ''p1'' (noChange\<lparr>ui_price := Some 120\<rparr>) carolBounces)
     = Inl (Error ''mailbox full'')
   \<and> map fst (outbox (snd (updateProperty ''p1'' (noChange\<lparr>ui_price := Some 120\<rparr>) carolBounces)))
     = [''bob@example.com'', ''carol@example.com'', ''dave@example.com'']
   \<and> properties (snd (updateProperty ''p1'' (noChange\<lparr>ui_price := Some 120\<rparr>) carolBounces))
     = [flat]"
  by (simp add: world_defs run_defs update_defs)

text \<open>
  C4 fails on an empty image list. The property has one stored image; the call supplies
  \<^verbatim>\<open>images: []\<close>. The diff before the replacement finds no new image and sets
  \<^verbatim>\<open>images = existingImages\<close>, the delete that follows removes the row, and nothing
  is inserted: the aggregate returned still holds the deleted image, while the store has
  none for the property.
\<close>

theorem updateProperty_empty_images_stale:
  "map_sum id up_images
     (fst (updateProperty ''p1'' (noChange\<lparr>ui_images := Some []\<rparr>) galleryWorld))
     = Inr [photo ''i1'' ''p1'' ''old.jpg'']
   \<and> filter (\<lambda>i. img_propertyId i = ''p1'')
       (propertyImages (snd (updateProperty ''p1'' (noChange\<lparr>ui_images := Some []\<rparr>)
                               galleryWorld)))
     = []"
  by (simp add: world_defs run_defs update_defs)

text \<open>
  C5, as the code has it. A call of \<open>updateProperty\<close> that returns found the property
  row. If it supplies neither price nor currency, no pricing-history row is appended.
  If it supplies the price or the currency (or both), exactly one row is appended,
  whatever the supplied values are; the row is for this property and stamped with the
  current time. If the supplied price is not \<^verbatim>\<open>0\<close>, the row carries the supplied
  price, or the stored one when none is supplied. If the supplied currency is not empty,
  the row carries the supplied currency, or, when none is supplied, the stored currency
  if it is not empty and \<^verbatim>\<open>"USD"\<close> if it is. (What the row carries for a supplied
  price of \<^verbatim>\<open>0\<close> or a supplied empty currency is left out of the statement.)
\<close>

theorem updateProperty_pricing_history:
  assumes "\<not> isl (fst (updateProperty pid input w))"
  shows "\<exists>existing rest.
           filter (\<lambda>p. p_id p = pid) (properties w) = existing # rest
           \<and> (ui_price input = None \<and> ui_currency input = None \<longrightarrow>
                pricingHistory (snd (updateProperty pid input w)) = pricingHistory w)
           \<and> (ui_price input \<noteq> None \<or> ui_currency input \<noteq> None \<longrightarrow>
                (\<exists>row.
                   pricingHistory (snd (updateProperty pid input w)) = pricingHistory w @ [row]
                   \<and> ph_id row = idGen w (idCount (snd (updateProperty pid input w)) - 1)
                   \<and> ph_propertyId row = pid
                   \<and> ph_effectiveDate row = clock w
                   \<and> (ui_price input \<noteq> Some 0 \<longrightarrow>
                        ph_price row =
                          (case ui_price input of None \<Rightarrow> p_price existing | Some x \<Rightarrow> x))
                   \<and> (ui_currency input \<noteq> Some [] \<longrightarrow>
                        ph_currency row =
                          (case ui_currency input of
                             Some c \<Rightarrow> c
                           | None \<Rightarrow> if p_currency existing = [] then ''USD''
                                     else p_currency existing))))"
proof -
  from not_isl_fst [OF assms] obtain r w' where u: "updateProperty pid input w = (Inr r, w')"
    by blast
  from updateProperty_pricing_row [OF u] obtain existing rest where
    e: "filter (\<lambda>p. p_id p = pid) (properties w) = existing # rest"
    and h: "pricingHistory w' = pricingHistory w @
               (if ui_price input \<noteq> None \<or> ui_currency input \<noteq> None
                then [\<lparr>ph_id = idGen w (idCount w' - 1), ph_propertyId = pid,
                       ph_price = (case ui_price input of
                                     None \<Rightarrow> p_price existing
                                   | Some x \<Rightarrow> if x = 0 then p_price existing else x),
                       ph_currency = orElse (ui_currency input)
                                       (orElse (Some (p_currency existing)) ''USD''),
                       ph_effectiveDate = clock w\<rparr>]
                else [])"
    by blast
  have n: "ui_price input = None \<and> ui_currency input = None \<longrightarrow>
             pricingHistory (snd (updateProperty pid input w)) = pricingHistory w"
    using h by (simp add: u)
  have s: "ui_price input \<noteq> None \<or> ui_currency input \<noteq> None \<longrightarrow>
                (\<exists>row.
                   pricingHistory (snd (updateProperty pid input w)) = pricingHistory w @ [row]
                   \<and> ph_id row = idGen w (idCount (snd (updateProperty pid input w)) - 1)
                   \<and> ph_propertyId row = pid
                   \<and> ph_effectiveDate row = clock w
                   \<and> (ui_price input \<noteq> Some 0 \<longrightarrow>
                        ph_price row =
                          (case ui_price input of None \<Rightarrow> p_price existing | Some x \<Rightarrow> x))
                   \<and> (ui_currency input \<noteq> Some [] \<longrightarrow>
                        ph_currency row =
                          (case ui_currency input of
                             Some c \<Rightarrow> c
                           | None \<Rightarrow> if p_currency existing = [] then ''USD''
                                     else p_currency existing)))"
  proof
    assume a: "ui_price input \<noteq> None \<or> ui_currency input \<noteq> None"
    define row where
      "row = \<lparr>ph_id = idGen w (idCount w' - 1), ph_propertyId = pid,
              ph_price = (case ui_price input of
                            None \<Rightarrow> p_price existing
                          | Some x \<Rightarrow> if x = 0 then p_price existing else x),
              ph_currency = orElse (ui_currency input)
                              (orElse (Some (p_currency existing)) ''USD''),
              ph_effectiveDate = clock w\<rparr>"
    have 1: "pricingHistory (snd (updateProperty pid input w)) = pricingHistory w @ [row]"
      using h a by (simp add: u row_def)
    have 2: "ph_id row = idGen w (idCount (snd (updateProperty pid input w)) - 1)"
      "ph_propertyId row = pid" "ph_effectiveDate row = clock w"
      by (simp_all add: row_def u)
    have 3: "ui_price input \<noteq> Some 0 \<longrightarrow>
               ph_price row = (case ui_price input of None \<Rightarrow> p_price existing | Some x \<Rightarrow> x)"
      by (simp add: row_def split: option.splits)
    have 4: "ui_currency input \<noteq> Some [] \<longrightarrow>
               ph_currency row =
                 (case ui_currency input of
                    Some c \<Rightarrow> c
                  | None \<Rightarrow> if p_currency existing = [] then ''USD'' else p_currency existing)"
      by (simp add: row_def orElse_def split: option.splits)
    from 1 2 3 4 show "\<exists>row.
                   pricingHistory (snd (updateProperty pid input w)) = pricingHistory w @ [row]
                   \<and> ph_id row = idGen w (idCount (snd (updateProperty pid input w)) - 1)
                   \<and> ph_propertyId row = pid
                   \<and> ph_effectiveDate row = clock w
                   \<and> (ui_price input \<noteq> Some 0 \<longrightarrow>
                        ph_price row =
                          (case ui_price input of None \<Rightarrow> p_price existing | Some x \<Rightarrow> x))
                   \<and> (ui_currency input \<noteq> Some [] \<longrightarrow>
                        ph_currency row =
                          (case ui_currency input of
                             Some c \<Rightarrow> c
                           | None \<Rightarrow> if p_currency existing = [] then ''USD''
                                     else p_currency existing))"
      by blast
  qed
  from e n s show ?thesis by blast
qed

text \<open>
  The theorem on three calls: one that supplies only a currency appends one row with the
  stored price; one that supplies only a title appends none; one that supplies the price
  \<^verbatim>\<open>0\<close> appends one row.
\<close>

theorem updateProperty_pricing_history_witness:
  "map (\<lambda>h. (ph_propertyId h, ph_price h, ph_currency h, ph_effectiveDate h))
     (pricingHistory (snd (updateProperty ''p1'' (noChange\<lparr>ui_currency := Some ''UAH''\<rparr>)
                             marketWorld)))
     = [(''p1'', 100, ''UAH'', 7)]
   \<and> pricingHistory (snd (updateProperty ''p1'' (noChange\<lparr>ui_title := Some ''Loft''\<rparr>)
                            marketWorld)) = []
   \<and> length (pricingHistory (snd (updateProperty ''p1'' (noChange\<lparr>ui_price := Some 0\<rparr>)
                                    galleryWorld))) = 1"
proof -
  have a1: "\<not> isl (fst (updateProperty ''p1'' (noChange\<lparr>ui_currency := Some ''UAH''\<rparr>)
                           marketWorld))"
    by (simp add: world_defs run_defs update_defs)
  have b1: "\<not> isl (fst (updateProperty ''p1'' (noChange\<lparr>ui_title := Some ''Loft''\<rparr>)
                           marketWorld))"
    by (simp add: world_defs run_defs update_defs)
  have c1: "\<not> isl (fst (updateProperty ''p1'' (noChange\<lparr>ui_price := Some 0\<rparr>) galleryWorld))"
    by (simp add: world_defs run_defs update_defs)
  have e: "pricingHistory marketWorld = []" "clock marketWorld = 7" "p_price flat = 100"
    "pricingHistory galleryWorld = []"
    "filter (\<lambda>p. p_id p = ''p1'') (properties marketWorld) = [flat]"
    by (simp_all add: world_defs)
  have 1: "map (\<lambda>h. (ph_propertyId h, ph_price h, ph_currency h, ph_effectiveDate h))
     (pricingHistory (snd (updateProperty ''p1'' (noChange\<lparr>ui_currency := Some ''UAH''\<rparr>)
                             marketWorld)))
     = [(''p1'', 100, ''UAH'', 7)]"
    using updateProperty_pricing_history [OF a1]
    by (auto simp: e noChange_def)
  have 2: "pricingHistory (snd (updateProperty ''p1'' (noChange\<lparr>ui_title := Some ''Loft''\<rparr>)
                            marketWorld)) = []"
    using updateProperty_pricing_history [OF b1]
    by (auto simp: e noChange_def)
  have 3: "length (pricingHistory (snd (updateProperty ''p1'' (noChange\<lparr>ui_price := Some 0\<rparr>)
                                    galleryWorld))) = 1"
    using updateProperty_pricing_history [OF c1]
    by (auto simp: e noChange_def)
  from 1 2 3 show ?thesis by blast
qed

text \<open>
  C5 as stated fails. A listing is stored with an empty currency; a call that supplies
  only the (unchanged) price appends a row whose currency is \<^verbatim>\<open>"USD"\<close>, not the
  stored value. And a call that supplies the price \<^verbatim>\<open>0\<close> appends a row with the
  stored price 100, not the supplied one.
\<close>

theorem updateProperty_pricing_history_fallbacks:
  "map (\<lambda>h. (ph_price h, ph_currency h))
     (pricingHistory (snd (updateProperty ''p1'' (noChange\<lparr>ui_price := Some 100\<rparr>)
                             unpricedWorld)))
     = [(100, ''USD'')]
   \<and> map p_currency (properties unpricedWorld) = [[]]
   \<and> map (\<lambda>h. (ph_price h, ph_currency h))
       (pricingHistory (snd (updateProperty ''p1''
          (noChange\<lparr>ui_price := Some 0, ui_currency := Some ''EUR''\<rparr>) galleryWorld)))
     = [(100, ''EUR'')]"
  by (simp add: world_defs run_defs update_defs)

text \<open>
  C7. On a call of \<open>updateProperty\<close> that returns and that supplies an image list, the
  image table afterwards is the rows of the other properties, untouched, followed by
  one new row per supplied image, in order, with identifiers the store handed out
  during the call: no earlier row of the property remains, whatever the diff found.
\<close>

theorem updateProperty_replaces_images:
  assumes "\<not> isl (fst (updateProperty pid input w))" and "ui_images input = Some imgs"
  shows "(\<exists>k. idCount w \<le> k \<and>
           propertyImages (snd (updateProperty pid input w)) =
             filter (\<lambda>i. img_propertyId i \<noteq> pid) (propertyImages w)
             @ map (\<lambda>(j, img). \<lparr>img_id = idGen w (k + j), img_propertyId = pid,
                                  img_imageUrl = ii_imageUrl img,
                                  img_isPrimary = ii_isPrimary img\<rparr>)
                 (zip [0 ..< length imgs] imgs))
       \<and> map (\<lambda>i. (img_imageUrl i, img_isPrimary i))
             (filter (\<lambda>i. img_propertyId i = pid)
                (propertyImages (snd (updateProperty pid input w))))
           = map (\<lambda>i. (ii_imageUrl i, ii_isPrimary i)) imgs"
proof -
  from not_isl_fst [OF assms(1)] obtain r w' where "updateProperty pid input w = (Inr r, w')"
    by blast
  from updateProperty_images_Inr [OF this assms(2)] this show ?thesis by simp
qed

text \<open>
  The theorem on a store with one image of the property and one of another property:
  a list of two images, one of them equal to the stored one, leaves the other property's
  image and the two supplied ones.
\<close>

theorem updateProperty_replaces_images_witness:
  "map (\<lambda>i. (img_propertyId i, img_imageUrl i, img_isPrimary i))
     (propertyImages (snd (updateProperty ''p1'' (noChange\<lparr>ui_images := Some newGallery\<rparr>)
                             galleryWorld)))
   = [(''p2'', ''barn.jpg'', True), (''p1'', ''old.jpg'', True), (''p1'', ''new.jpg'', False)]"
proof -
  have h1: "\<not> isl (fst (updateProperty ''p1'' (noChange\<lparr>ui_images := Some newGallery\<rparr>)
                           galleryWorld))"
    by (simp add: world_defs run_defs update_defs)
  have h2: "ui_images (noChange\<lparr>ui_images := Some newGallery\<rparr>) = Some newGallery"
    by simp
  from updateProperty_replaces_images [OF h1 h2]
  obtain k where
    "propertyImages (snd (updateProperty ''p1'' (noChange\<lparr>ui_images := Some newGallery\<rparr>)
                            galleryWorld)) =
       filter (\<lambda>i. img_propertyId i \<noteq> ''p1'') (propertyImages galleryWorld)
       @ map (\<lambda>(j, img). \<lparr>img_id = idGen galleryWorld (k + j), img_propertyId = ''p1'',
                            img_imageUrl = ii_imageUrl img,
                            img_isPrimary = ii_isPrimary img\<rparr>)
           (zip [0 ..< length newGallery] newGallery)"
    by blast
  then show ?thesis
    by (simp add: world_defs upt_rec)
qed

section \<open>Claims about deleteProperty, verifyProperty and addNewProperty\<close>

text \<open>
  C3, as the code has it. For an id that no property row has, \<open>deleteProperty\<close> sends
  one statement to the store, the select, and no delete; it rejects with the error
  \<^verbatim>\<open>Failed to delete property: ...\<close> that its \<^verbatim>\<open>catch\<close> builds, whose message
  ends in the not-found message (or in the store's message, if the select itself was
  rejected): the not-found error is thrown inside the \<^verbatim>\<open>try\<close> and wrapped like
  any other. For an id that exists, a delete that the store rejects is wrapped in the
  same way, after the select and the delete and with no table changed. So every error
  of \<open>deleteProperty\<close>, for every id and every store, is such a wrapper; and a call
  that returns has found the row, had both statements accepted, and removed the row.
\<close>

theorem deleteProperty_wraps_every_error:
  "((\<forall>p\<in>set (properties w). p_id p \<noteq> pid) \<longrightarrow>
      deleteProperty pid w =
        (Inl (Error (''Failed to delete property: '' @
           (case dbFault w (Select, Properties) of
              None \<Rightarrow> ''Property with ID '' @ pid @ '' not found''
            | Some m \<Rightarrow> m))),
         w\<lparr>trace := trace w @ [Stmt Select Properties]\<rparr>))
   \<and> (\<forall>m. filter (\<lambda>p. p_id p = pid) (properties w) \<noteq> []
           \<and> dbFault w (Select, Properties) = None
           \<and> dbFault w (Delete, Properties) = Some m \<longrightarrow>
        deleteProperty pid w =
          (Inl (Error (''Failed to delete property: '' @ m)),
           w\<lparr>trace := trace w @ [Stmt Select Properties, Stmt Delete Properties]\<rparr>))
   \<and> (isl (fst (deleteProperty pid w)) \<longrightarrow>
        (\<exists>m. fst (deleteProperty pid w) = Inl (Error (''Failed to delete property: '' @ m))))
   \<and> (\<not> isl (fst (deleteProperty pid w)) \<longrightarrow>
        filter (\<lambda>p. p_id p = pid) (properties w) \<noteq> []
        \<and> dbFault w (Select, Properties) = None \<and> dbFault w (Delete, Properties) = None
        \<and> properties (snd (deleteProperty pid w))
            = filter (\<lambda>p. p_id p \<noteq> pid) (properties w))"
proof (intro conjI allI impI)
  assume "\<forall>p\<in>set (properties w). p_id p \<noteq> pid"
  then have "filter (\<lambda>p. p_id p = pid) (properties w) = []"
    by (simp add: filter_none)
  then show "deleteProperty pid w =
        (Inl (Error (''Failed to delete property: '' @
           (case dbFault w (Select, Properties) of
              None \<Rightarrow> ''Property with ID '' @ pid @ '' not found''
            | Some m \<Rightarrow> m))),
         w\<lparr>trace := trace w @ [Stmt Select Properties]\<rparr>)"
    by (simp add: deleteProperty_eq split: option.splits)
next
  fix m
  assume "filter (\<lambda>p. p_id p = pid) (properties w) \<noteq> []
           \<and> dbFault w (Select, Properties) = None
           \<and> dbFault w (Delete, Properties) = Some m"
  then show "deleteProperty pid w =
          (Inl (Error (''Failed to delete property: '' @ m)),
           w\<lparr>trace := trace w @ [Stmt Select Properties, Stmt Delete Properties]\<rparr>)"
    by (simp add: deleteProperty_eq)
next
  assume "isl (fst (deleteProperty pid w))"
  then show "\<exists>m. fst (deleteProperty pid w) = Inl (Error (''Failed to delete property: '' @ m))"
    by (auto simp: deleteProperty_eq split: option.splits if_splits)
next
  assume n: "\<not> isl (fst (deleteProperty pid w))"
  then show "filter (\<lambda>p. p_id p = pid) (properties w) \<noteq> []"
    by (auto simp: deleteProperty_eq split: option.splits if_splits)
  from n show "dbFault w (Select, Properties) = None"
    by (auto simp: deleteProperty_eq split: option.splits if_splits)
  from n show "dbFault w (Delete, Properties) = None"
    by (auto simp: deleteProperty_eq split: option.splits if_splits)
  from n show "properties (snd (deleteProperty pid w))
            = filter (\<lambda>p. p_id p \<noteq> pid) (properties w)"
    by (auto simp: deleteProperty_eq split: option.splits if_splits)
qed

text \<open>
  The theorem on three calls: a missing id; an existing id on a store that rejects the
  delete; an existing id on a store that answers.
\<close>

theorem deleteProperty_wraps_every_error_witness:
  "deleteProperty ''p9'' marketWorld =
     (Inl (Error ''Failed to delete property: Property with ID p9 not found''),
      marketWorld\<lparr>trace := [Stmt Select Properties]\<rparr>)
   \<and> deleteProperty ''p1'' lockedWorld =
     (Inl (Error ''Failed to delete property: deadlock detected''),
      lockedWorld\<lparr>trace := [Stmt Select Properties, Stmt Delete Properties]\<rparr>)
   \<and> properties (snd (deleteProperty ''p1'' marketWorld)) = []"
proof -
  have h: "\<forall>p\<in>set (properties marketWorld). p_id p \<noteq> ''p9''"
    by (simp add: world_defs)
  have k: "filter (\<lambda>p. p_id p = ''p1'') (properties lockedWorld) \<noteq> []
           \<and> dbFault lockedWorld (Select, Properties) = None
           \<and> dbFault lockedWorld (Delete, Properties) = Some ''deadlock detected''"
    by (simp add: world_defs lockedWorld_def)
  have r: "\<not> isl (fst (deleteProperty ''p1'' marketWorld))"
    by (simp add: deleteProperty_def run_defs world_defs)
  have e: "trace marketWorld = []" "trace lockedWorld = []"
    "filter (\<lambda>p. p_id p \<noteq> ''p1'') (properties marketWorld) = []"
    by (simp_all add: world_defs lockedWorld_def)
  from deleteProperty_wraps_every_error [of marketWorld "''p9''"] h
  have 1: "deleteProperty ''p9'' marketWorld =
     (Inl (Error ''Failed to delete property: Property with ID p9 not found''),
      marketWorld\<lparr>trace := [Stmt Select Properties]\<rparr>)"
    by (simp add: e) (simp add: world_defs)
  from deleteProperty_wraps_every_error [of lockedWorld "''p1''"] k
  have 2: "deleteProperty ''p1'' lockedWorld =
     (Inl (Error ''Failed to delete property: deadlock detected''),
      lockedWorld\<lparr>trace := [Stmt Select Properties, Stmt Delete Properties]\<rparr>)"
    by (simp add: e)
  from deleteProperty_wraps_every_error [of marketWorld "''p1''"] r
  have 3: "properties (snd (deleteProperty ''p1'' marketWorld)) = []"
    by (simp add: e)
  from 1 2 3 show ?thesis by blast
qed

text \<open>
  C3 as stated fails: the error for a missing id is not the not-found error that
  \<open>getProperty\<close> and \<open>updateProperty\<close> throw, but the wrapper around it.
\<close>

theorem deleteProperty_missing_is_wrapped:
  "fst (deleteProperty ''p9'' marketWorld)
     = Inl (Error ''Failed to delete property: Property with ID p9 not found'')
   \<and> fst (deleteProperty ''p9'' marketWorld) \<noteq> Inl (Error ''Property with ID p9 not found'')
   \<and> fst (updateProperty ''p9'' noChange marketWorld)
     = Inl (Error ''Property with ID p9 not found'')"
  by (simp add: deleteProperty_def updateProperty_def run_defs world_defs)

text \<open>
  C9. For an id that no property row has, \<open>verifyProperty\<close> never returns a value. It
  sends the update and, if the store accepted it, the two reads of the pricing history
  and the images, and nothing else: no conversation is read, no message is read,
  inserted or updated, the session registry is not touched, and no table changes. On a
  store that answers every statement the error is the \<^verbatim>\<open>TypeError\<close> of reading
  \<^verbatim>\<open>property.id\<close> of \<^verbatim>\<open>undefined\<close>, not a not-found error.
\<close>

theorem verifyProperty_missing:
  assumes "\<forall>p\<in>set (properties w). p_id p \<noteq> pid"
  shows "isl (fst (verifyProperty pid w))
       \<and> snd (verifyProperty pid w) =
           w\<lparr>trace := trace w @
                (if dbFault w (Update, Properties) = None
                 then [Stmt Update Properties, Stmt Select PricingHistory,
                       Stmt Select PropertyImages]
                 else [Stmt Update Properties])\<rparr>
       \<and> (dbFault w = (\<lambda>_. None) \<longrightarrow>
            fst (verifyProperty pid w)
              = Inl (TypeError ''Cannot read properties of undefined (reading 'id')''))"
  using assms
  by (auto simp add: verifyProperty_def run_defs filter_none map_same selectPricingOf_def
      selectImagesOf_def split: option.splits)

theorem verifyProperty_missing_witness:
  "verifyProperty ''p9'' marketWorld =
     (Inl (TypeError ''Cannot read properties of undefined (reading 'id')''),
      marketWorld\<lparr>trace := [Stmt Update Properties, Stmt Select PricingHistory,
                              Stmt Select PropertyImages]\<rparr>)"
proof -
  have h: "\<forall>p\<in>set (properties marketWorld). p_id p \<noteq> ''p9''"
    by (simp add: world_defs)
  have n: "dbFault marketWorld = (\<lambda>_. None)"
    by (simp add: world_defs)
  show ?thesis
    using verifyProperty_missing [OF h] n
    by (simp add: world_defs prod_eq_iff)
qed

text \<open>
  C6. Let the owner of the input be a \<^verbatim>\<open>private_seller\<close>, on a store that answers
  every statement. If the owner's \<open>listingLimit\<close> is a number not above 0,
  \<open>addNewProperty\<close> rejects with \<^verbatim>\<open>Listings limit reached\<close> after the one read of
  the owner, and the world is as before but for that read in the trace: no table has
  changed. If the \<open>listingLimit\<close> is 3, the call returns and leaves the owner's
  \<open>listingLimit\<close> at 2.
\<close>

theorem addNewProperty_quota:
  assumes "filter (\<lambda>u. u_id u = ci_ownerId input) (users w) = owner # others"
    and "u_role owner = ''private_seller''"
    and "dbFault w = (\<lambda>_. None)"
  shows "(\<forall>n. u_listingLimit owner = Some n \<and> n \<le> 0 \<longrightarrow>
            addNewProperty input w =
              (Inl (Error ''Listings limit reached''),
               w\<lparr>trace := trace w @ [Stmt Select Users]\<rparr>))
       \<and> (u_listingLimit owner = Some 3 \<longrightarrow>
            \<not> isl (fst (addNewProperty input w))
            \<and> users (snd (addNewProperty input w)) =
                map (\<lambda>u. if u_id u = ci_ownerId input then u\<lparr>u_listingLimit := Some 2\<rparr> else u)
                  (users w))"
proof (cases "ci_images input")
  case None
  then show ?thesis using assms
    by (simp add: add_defs run_defs)
next
  case (Some imgs)
  then show ?thesis using assms
    by (simp add: add_defs run_defs)
qed

theorem addNewProperty_quota_witness:
  "addNewProperty bungalow exhaustedWorld =
     (Inl (Error ''Listings limit reached''), exhaustedWorld\<lparr>trace := [Stmt Select Users]\<rparr>)
   \<and> \<not> isl (fst (addNewProperty bungalow marketWorld))
   \<and> map u_listingLimit (users (snd (addNewProperty bungalow marketWorld)))
       = [Some 2, None, None, None]"
proof -
  have a1: "filter (\<lambda>u. u_id u = ci_ownerId bungalow) (users exhaustedWorld)
            = member ''u1'' ''alice'' ''private_seller'' (Some 0) # []"
    by (simp add: world_defs)
  have a2: "u_role (member ''u1'' ''alice'' ''private_seller'' (Some 0)) = ''private_seller''"
    by (simp add: member_def)
  have a3: "dbFault exhaustedWorld = (\<lambda>_. None)"
    by (simp add: world_defs)
  have b1: "filter (\<lambda>u. u_id u = ci_ownerId bungalow) (users marketWorld)
            = member ''u1'' ''alice'' ''private_seller'' (Some 3) # []"
    by (simp add: world_defs)
  have b2: "u_role (member ''u1'' ''alice'' ''private_seller'' (Some 3)) = ''private_seller''"
    by (simp add: member_def)
  have b3: "dbFault marketWorld = (\<lambda>_. None)"
    by (simp add: world_defs)
  show ?thesis
    using addNewProperty_quota [OF a1 a2 a3] addNewProperty_quota [OF b1 b2 b3]
    by (simp add: world_defs)
qed

section \<open>Claims about getProperties and getProperty\<close>

text \<open>
  C1, as the code has it. On a store that answers every statement, a call of
  \<open>getProperties\<close> that supplies a filter value other than \<^verbatim>\<open>"active"\<close>,
  \<^verbatim>\<open>"sold_rented"\<close> and \<^verbatim>\<open>"inactive"\<close> returns every stored property, whatever
  its status and whether or not it is verified. A call that supplies no filter value is
  the call with \<^verbatim>\<open>"active"\<close>, the default value of the parameter: it returns the
  properties that are active and verified, and no other.
\<close>

theorem getProperties_unfiltered:
  assumes "dbFault w = (\<lambda>_. None)"
    and "f \<noteq> ''active''" and "f \<noteq> ''sold_rented''" and "f \<noteq> ''inactive''"
  shows "(\<exists>res. fst (getProperties (Some f) userId w) = Inr res
              \<and> r_property ` set res = set (properties w))
       \<and> getProperties None userId w = getProperties (Some ''active'') userId w
       \<and> (\<exists>res. fst (getProperties None userId w) = Inr res
              \<and> r_property ` set res
                  = {p \<in> set (properties w). p_status p = ''active'' \<and> p_isVerified p})"
proof -
  have 1: "\<exists>res. fst (getProperties (Some f) userId w) = Inr res
              \<and> r_property ` set res = set (properties w)"
    using assms(2-4)
    by (simp add: getProperties_fst [OF assms(1)] image_image visible_def fst_leftJoin)
  have 2: "getProperties None userId w = getProperties (Some ''active'') userId w"
    by (simp add: getProperties_def)
  have 3: "\<exists>res. fst (getProperties None userId w) = Inr res
              \<and> r_property ` set res
                  = {p \<in> set (properties w). p_status p = ''active'' \<and> p_isVerified p}"
    using set_filter_leftJoin [of "\<lambda>p. p_status p = ''active'' \<and> p_isVerified p" "properties w" "ownerOf w"]
    by (simp add: getProperties_fst [OF assms(1)] image_image visible_def)
  from 1 2 3 show ?thesis by blast
qed

text \<open>
  The theorem on the three listings: an unknown filter value returns all three.
\<close>

theorem getProperties_unfiltered_witness:
  "map_sum id (map (\<lambda>r. p_id (r_property r)))
     (fst (getProperties (Some ''all'') None listingWorld)) = Inr [''p1'', ''p2'', ''p3'']
   \<and> r_property ` set (projr (fst (getProperties (Some ''all'') None listingWorld)))
       = set (properties listingWorld)"
proof -
  have h: "dbFault listingWorld = (\<lambda>_. None)"
    by (simp add: world_defs listing_defs)
  have d: "''all'' \<noteq> ''active''" "''all'' \<noteq> ''sold_rented''" "''all'' \<noteq> ''inactive''"
    by simp_all
  have 1: "map_sum id (map (\<lambda>r. p_id (r_property r)))
     (fst (getProperties (Some ''all'') None listingWorld)) = Inr [''p1'', ''p2'', ''p3'']"
    by (simp add: world_defs listing_defs get_defs run_defs)
  from getProperties_unfiltered [OF h d, of None]
  have 2: "r_property ` set (projr (fst (getProperties (Some ''all'') None listingWorld)))
       = set (properties listingWorld)"
    by auto
  from 1 2 show ?thesis by blast
qed

text \<open>
  C1 as stated fails for the absent filter: of the three listings, the call without a
  filter value returns only the one that is active and verified.
\<close>

theorem getProperties_absent_filter_is_active:
  "map_sum id (map (\<lambda>r. p_id (r_property r))) (fst (getProperties None None listingWorld))
     = Inr [''p2'']
   \<and> map (\<lambda>p. (p_id p, p_status p, p_isVerified p)) (properties listingWorld)
     = [(''p1'', ''active'', False), (''p2'', ''active'', True), (''p3'', ''sold'', True)]"
  by (simp add: world_defs listing_defs get_defs run_defs)

text \<open>
  C10. On a store that answers every statement, under every filter value (and none),
  the \<open>owner\<close> of each property that \<open>getProperties\<close> returns is the record of
  the four fields id, email, username and role of a user row whose id is the property's
  \<open>ownerId\<close>, a null email read as the empty string, or four empty strings when there
  is no such row. The record type has no other field; and the output does not depend
  on any other column: two stores whose user rows agree on these four columns give the
  same output, also under \<^verbatim>\<open>"active"\<close>, whose query selects more.
\<close>

theorem getProperties_owner_projection:
  assumes "dbFault w = (\<lambda>_. None)"
  shows "(\<exists>res. fst (getProperties filterArg userId w) = Inr res
            \<and> (\<forall>r\<in>set res. \<exists>u.
                  (case u of
                     None \<Rightarrow> ownerOf w (r_property r) = []
                   | Some x \<Rightarrow> x \<in> set (ownerOf w (r_property r)))
                  \<and> r_owner r = ownerView u))
       \<and> (\<forall>g. (\<forall>u. u_id (g u) = u_id u \<and> u_email (g u) = u_email u
                    \<and> u_username (g u) = u_username u \<and> u_role (g u) = u_role u) \<longrightarrow>
              fst (getProperties filterArg userId (w\<lparr>users := map g (users w)\<rparr>))
                = fst (getProperties filterArg userId w))"
proof (intro conjI allI impI)
  define f where "f = (case filterArg of None \<Rightarrow> ''active'' | Some f \<Rightarrow> f)"
  define res where "res = map (aggregate userId w)
           (filter (\<lambda>(p, u). visible f p) (leftJoin (properties w) (ownerOf w)))"
  have "fst (getProperties filterArg userId w) = Inr res"
    by (simp add: getProperties_fst [OF assms] res_def f_def)
  moreover have "\<exists>u. (case u of
                     None \<Rightarrow> ownerOf w (r_property r) = []
                   | Some x \<Rightarrow> x \<in> set (ownerOf w (r_property r)))
                  \<and> r_owner r = ownerView u" if "r \<in> set res" for r
  proof -
    from that obtain p u where "(p, u) \<in> set (leftJoin (properties w) (ownerOf w))"
      and "r = aggregate userId w (p, u)"
      by (auto simp: res_def)
    then show ?thesis
      by (cases u) (auto simp: in_leftJoin intro!: exI [of _ u])
  qed
  ultimately show "\<exists>res. fst (getProperties filterArg userId w) = Inr res
            \<and> (\<forall>r\<in>set res. \<exists>u.
                  (case u of
                     None \<Rightarrow> ownerOf w (r_property r) = []
                   | Some x \<Rightarrow> x \<in> set (ownerOf w (r_property r)))
                  \<and> r_owner r = ownerView u)"
    by blast
next
  fix g :: "user \<Rightarrow> user"
  assume g: "\<forall>u. u_id (g u) = u_id u \<and> u_email (g u) = u_email u
                    \<and> u_username (g u) = u_username u \<and> u_role (g u) = u_role u"
  define w' where "w' = w\<lparr>users := map g (users w)\<rparr>"
  have n: "dbFault w' = (\<lambda>_. None)" using assms by (simp add: w'_def)
  have o: "ownerOf w' = (\<lambda>p. map g (ownerOf w p))"
    using g by (simp add: ownerOf_def w'_def fun_eq_iff filter_map o_def)
  have v: "ownerView (map_option g u) = ownerView u" for u
    using g by (cases u) simp_all
  have a: "aggregate userId w' (p, map_option g u) = aggregate userId w (p, u)" for p u
    by (simp add: aggregate_def v) (simp add: w'_def wishedBy_def split: option.splits)
  have "fst (getProperties filterArg userId w') = fst (getProperties filterArg userId w)"
    by (simp add: getProperties_fst [OF n] getProperties_fst [OF assms] o leftJoin_map
        filter_map o_def split_def a) (simp add: w'_def)
  then show "fst (getProperties filterArg userId (w\<lparr>users := map g (users w)\<rparr>))
                = fst (getProperties filterArg userId w)"
    by (simp add: w'_def)
qed

theorem getProperties_owner_projection_witness:
  "map_sum id (map r_owner) (fst (getProperties (Some ''sold_rented'') None listingWorld))
     = Inr [\<lparr>o_id = [], o_email = [], o_username = [], o_role = []\<rparr>]
   \<and> map_sum id (map r_owner) (fst (getProperties (Some ''active'') None listingWorld))
     = Inr [\<lparr>o_id = ''u1'', o_email = ''alice@example.com'', o_username = ''alice'',
             o_role = ''private_seller''\<rparr>]
   \<and> fst (getProperties (Some ''active'') None
            (listingWorld\<lparr>users := map scrub (users listingWorld)\<rparr>))
     = fst (getProperties (Some ''active'') None listingWorld)"
proof -
  have h: "dbFault listingWorld = (\<lambda>_. None)"
    by (simp add: world_defs listing_defs)
  have s: "\<forall>u. u_id (scrub u) = u_id u \<and> u_email (scrub u) = u_email u
                    \<and> u_username (scrub u) = u_username u \<and> u_role (scrub u) = u_role u"
    by (simp add: scrub_def)
  have 1: "map_sum id (map r_owner) (fst (getProperties (Some ''sold_rented'') None listingWorld))
     = Inr [\<lparr>o_id = [], o_email = [], o_username = [], o_role = []\<rparr>]"
    by (simp add: world_defs listing_defs get_defs run_defs)
  have 2: "map_sum id (map r_owner) (fst (getProperties (Some ''active'') None listingWorld))
     = Inr [\<lparr>o_id = ''u1'', o_email = ''alice@example.com'', o_username = ''alice'',
             o_role = ''private_seller''\<rparr>]"
    by (simp add: world_defs listing_defs get_defs run_defs)
  from getProperties_owner_projection [OF h, of "Some ''active''" None] s
  have 3: "fst (getProperties (Some ''active'') None
            (listingWorld\<lparr>users := map scrub (users listingWorld)\<rparr>))
     = fst (getProperties (Some ''active'') None listingWorld)"
    by blast
  from 1 2 3 show ?thesis by blast
qed

text \<open>
  C8. Let a property with the given, non-empty id exist, on a store that answers every
  statement. Then \<open>getProperty\<close> returns an aggregate whose images are image rows of
  the property, no two with the same id and one for each image id of the property: as
  many as the property has distinct images. The same holds of its views and of its
  pricing history, however many rows the join has. (The id must not be empty because
  the fold starts a new aggregate whenever \<^verbatim>\<open>!acc.id\<close> holds.)
\<close>

theorem getProperty_deduplicates:
  assumes "dbFault w = (\<lambda>_. None)" and "pid \<noteq> []"
    and "p \<in> set (properties w)" and "p_id p = pid"
  shows "\<exists>r. fst (getProperty pid userId w) = Inr (Some r)
          \<and> oneRowPerId img_id (r_images r)
               {i \<in> set (propertyImages w). img_propertyId i = pid}
          \<and> oneRowPerId v_id (r_views r)
               {v \<in> set (propertyViews w). v_propertyId v = pid}
          \<and> oneRowPerId ph_id (r_pricingHistory r)
               {h \<in> set (pricingHistory w). ph_propertyId h = pid}"
proof -
  define w1 where "w1 = w\<lparr>trace := trace w @ [Stmt Select Properties]\<rparr>"
  have j: "joinProperty pid w1 = joinProperty pid w"
    by (simp add: w1_def joinProperty_def)
  from joinProperty_nonempty [OF assms(3,4)] obtain row rows
    where rows: "joinProperty pid w = row # rows"
    by (cases "joinProperty pid w") auto
  then have "row \<in> set (joinProperty pid w)" by simp
  from joinProperty_property [OF this] assms(2)
  have ne: "p_id (rowProperty row) \<noteq> []" by simp
  have "dbFault w1 (Select, Wishlist) = None" using assms(1) by (simp add: w1_def)
  from isPropertyWished_eq [OF this] obtain tr where
    wi: "isPropertyWished pid userId w1 = (Inr (wishedBy userId w1 pid), w1\<lparr>trace := tr\<rparr>)"
    by blast
  define r where
    "r = \<lparr>r_property = rowProperty row,
          r_images = foldl (addById img_id) [] (map rowImage (joinProperty pid w)),
          r_views = foldl (addById v_id) [] (map rowView (joinProperty pid w)),
          r_pricingHistory = foldl (addById ph_id) [] (map rowPricing (joinProperty pid w)),
          r_owner = projectOwner (snd row), r_isWished = wishedBy userId w1 pid\<rparr>"
  have "fst (getProperty pid userId w) = Inr (foldl (foldRow (wishedBy userId w1 pid)) None (row # rows))"
    using assms(1) rows
    by (simp add: getProperty_def run_defs w1_def [symmetric] j wi)
  also have "\<dots> = Inr (Some r)"
    by (simp only: foldl_foldRow_None [OF ne] r_def rows)
  finally have 1: "fst (getProperty pid userId w) = Inr (Some r)" .
  have 2: "oneRowPerId img_id (r_images r) {i \<in> set (propertyImages w). img_propertyId i = pid}"
    using oneRowPerId_foldl [OF joinProperty_images [OF assms(3,4)], of img_id]
    by (simp add: r_def)
  have 3: "oneRowPerId v_id (r_views r) {v \<in> set (propertyViews w). v_propertyId v = pid}"
    using oneRowPerId_foldl [OF joinProperty_views [OF assms(3,4)], of v_id]
    by (simp add: r_def)
  have 4: "oneRowPerId ph_id (r_pricingHistory r)
             {h \<in> set (pricingHistory w). ph_propertyId h = pid}"
    using oneRowPerId_foldl [OF joinProperty_pricing [OF assms(3,4)], of ph_id]
    by (simp add: r_def)
  from 1 2 3 4 show ?thesis by blast
qed

text \<open>
  The theorem on a listing with two images, three views and two pricing rows, whose
  join has twelve rows.
\<close>

theorem getProperty_deduplicates_witness:
  "map_sum id (map_option (\<lambda>r. (map img_id (r_images r), map v_id (r_views r),
                                  map ph_id (r_pricingHistory r))))
     (fst (getProperty ''p1'' None fanoutWorld))
     = Inr (Some ([''i1'', ''i3''], [''v1'', ''v2'', ''v3''], [''h1'', ''h2'']))
   \<and> length (joinProperty ''p1'' fanoutWorld) = 12"
proof -
  have h1: "dbFault fanoutWorld = (\<lambda>_. None)"
    by (simp add: world_defs listing_defs)
  have h2: "''p1'' \<noteq> []" by simp
  have h3: "flat \<in> set (properties fanoutWorld)"
    by (simp add: world_defs listing_defs)
  have h4: "p_id flat = ''p1''" by (simp add: flat_def)
  have e: "map_sum id (map_option (\<lambda>r. (map img_id (r_images r), map v_id (r_views r),
                                  map ph_id (r_pricingHistory r))))
     (fst (getProperty ''p1'' None fanoutWorld))
     = Inr (Some ([''i1'', ''i3''], [''v1'', ''v2'', ''v3''], [''h1'', ''h2'']))"
    by (simp add: world_defs listing_defs getProperty_defs run_defs)
  have l: "length (joinProperty ''p1'' fanoutWorld) = 12"
    by (simp add: world_defs listing_defs getProperty_defs)
  from getProperty_deduplicates [OF h1 h2 h3 h4, of None] e l show ?thesis by blast
qed

end
